theory Spec2Isabelle
  imports Main
begin

section \<open>Manifest model (internal/manifest/types.go)\<close>

record Package =
  Name :: string

record Component =
  ID :: string
  Pkg :: string
  Description :: string
  Default :: bool

text \<open>
  The struct \<^verbatim>\<open>Manifest\<close>. \<open>'a\<close> stands for \<^verbatim>\<open>[]Component\<close>: the list of the
  components where only the value of the manifest matters (\<open>ManifestValue\<close>), a slice
  header where the memory behind it matters (\<open>slice Manifest\<close>, below). The elements of
  \<^verbatim>\<open>Core\<close> are only read, and no array of \<^verbatim>\<open>Package\<close> is written anywhere, so \<open>Core\<close> is
  a list in both.
\<close>

record 'a Manifest =
  Version :: string
  RegistryURL :: string
  Core :: "Package list"
  Services :: 'a
  Plugins :: 'a

type_synonym ManifestValue = "Component list Manifest"

text \<open>
  \<^verbatim>\<open>CorePackageNames\<close> allocates a slice of \<open>len(m.Core)\<close> strings and stores
  \<open>p.Name\<close> at every index \<open>i\<close>.
\<close>

definition CorePackageNames :: "'a Manifest \<Rightarrow> string list" where
  "CorePackageNames m = map Name (Core m)"

section \<open>Slices of components in memory\<close>

text \<open>
  A Go slice is a header: the backing array (here its identity \<open>arr\<close>), the index
  \<open>off\<close> of the slice's first element in that array, the length and the capacity
  (counted from \<open>off\<close>). \<open>arrays\<close> gives the contents of every array of components,
  over its whole capacity. In a Go program every slice lies within its array: its
  length is at most its capacity, and \<open>off\<close> plus the capacity is at most the length of
  the array.
\<close>

record slice =
  arr :: nat
  off :: nat
  len :: nat
  cap :: nat

type_synonym arrays = "nat \<Rightarrow> Component list"

definition elems :: "arrays \<Rightarrow> slice \<Rightarrow> Component list" where
  "elems a s = take (len s) (drop (off s) (a (arr s)))"

text \<open>
  \<^verbatim>\<open>append(s, t...)\<close>. If the elements of \<open>t\<close> fit into the capacity of \<open>s\<close>, Go copies
  them into the array of \<open>s\<close>, behind the elements of \<open>s\<close> (the copy reads all of \<open>t\<close>
  before it overwrites, as \<^verbatim>\<open>memmove\<close> does); otherwise it copies both into a new
  array. In the code the result is only ranged over and never stored, so the model
  returns its elements, not a header, and does not keep the new array.
\<close>

definition go_append :: "arrays \<Rightarrow> slice \<Rightarrow> slice \<Rightarrow> arrays \<times> Component list" where
  "go_append a s t =
     (let xs = elems a s; ys = elems a t in
      if len s + len t \<le> cap s
      then (a(arr s := take (off s + len s) (a (arr s)) @ ys @
                         drop (off s + len s + len t) (a (arr s))),
            xs @ ys)
      else (a, xs @ ys))"

text \<open>The value of a manifest in memory: what its two slices hold.\<close>

definition load :: "arrays \<Rightarrow> slice Manifest \<Rightarrow> ManifestValue" where
  "load a m = \<lparr>Version = Version m, RegistryURL = RegistryURL m, Core = Core m,
               Services = elems a (Services m), Plugins = elems a (Plugins m)\<rparr>"

text \<open>
  A manifest that \<^verbatim>\<open>json.Unmarshal\<close> has just decoded, or that is written as a literal:
  each of its two slices has an array of its own, which nothing else refers to. Here
  the arrays are numbered 0 and 1 and have no spare capacity; what \<^verbatim>\<open>append\<close> would
  write into spare capacity of such an array is read by nothing.
\<close>

definition arrays_of :: "ManifestValue \<Rightarrow> arrays" where
  "arrays_of m = (\<lambda>i. if i = 0 then Services m else if i = 1 then Plugins m else [])"

definition headers_of :: "ManifestValue \<Rightarrow> slice Manifest" where
  "headers_of m =
     \<lparr>Version = Version m, RegistryURL = RegistryURL m, Core = Core m,
      Services = \<lparr>arr = 0, off = 0, len = length (Services m), cap = length (Services m)\<rparr>,
      Plugins = \<lparr>arr = 1, off = 0, len = length (Plugins m), cap = length (Plugins m)\<rparr>\<rparr>"

section \<open>Errors\<close>

text \<open>
  Errors of the \<^verbatim>\<open>os\<close> package, as far as the code tells them apart:
  \<^verbatim>\<open>os.IsNotExist\<close> holds of \<open>ErrNotExist\<close> only.
\<close>

datatype os_error = ErrNotExist | ErrNotDir | ErrPermission | ErrNoSpace

definition IsNotExist :: "os_error \<Rightarrow> bool" where
  "IsNotExist e = (e = ErrNotExist)"

text \<open>
  \<open>Wrap p e\<close> is \<^verbatim>\<open>fmt.Errorf(p + ": %w", e)\<close>; \<open>NoConfig path\<close> is the error
  \<^verbatim>\<open>"no config found at <path> - is the platform installed?"\<close> of \<^verbatim>\<open>config.Read\<close>;
  \<open>PmError\<close> stands for whatever error a package manager returns.
\<close>

datatype error =
    OsError os_error
  | JsonError
  | PmError string
  | NoConfig string
  | Wrap string error

section \<open>What the code takes from the Go runtime and standard library\<close>

text \<open>
  \<^verbatim>\<open>path/filepath\<close> and \<^verbatim>\<open>encoding/json\<close> are not code of this repository; they are
  parameters of the model. \<open>range_keys\<close> is the order in which a \<^verbatim>\<open>for ... range\<close>
  loop visits the keys of a map, which Go leaves unspecified.
  \<open>json_MarshalIndent\<close> and \<open>json_Unmarshal\<close> return \<open>None\<close> where the Go functions
  return an error. \<^verbatim>\<open>filepath.Abs\<close> returns a string also when it fails, and the code
  ignores its error.

  Nothing is assumed of the codec. In particular \<^verbatim>\<open>json.Unmarshal\<close> need not read back
  the record \<^verbatim>\<open>json.MarshalIndent\<close> wrote; the documentation of \<^verbatim>\<open>json.Marshal\<close>:
  "String values encode as JSON strings coerced to valid UTF-8, replacing invalid bytes
  with the Unicode replacement rune."
\<close>

record PlatformConfig =
  InstalledAt :: int
  Platform :: string
  CWD :: string
  PM :: string
  Manifest :: ManifestValue
  cfg_Version :: int

record sys =
  filepath_Join :: "string list \<Rightarrow> string"
  filepath_Abs :: "string \<Rightarrow> string"
  json_MarshalIndent :: "PlatformConfig \<Rightarrow> string option"
  json_Unmarshal :: "string \<Rightarrow> PlatformConfig option"
  range_keys :: "(string \<rightharpoonup> bool) \<Rightarrow> string list"

text \<open>A \<^verbatim>\<open>range\<close> loop over a map visits every key once.\<close>

definition visits_keys :: "sys \<Rightarrow> (string \<rightharpoonup> bool) \<Rightarrow> bool" where
  "visits_keys sys m = (distinct (range_keys sys m) \<and> set (range_keys sys m) = dom m)"

section \<open>Package managers (internal/pm)\<close>

record Progress =
  prog_Error :: "error option"
  prog_Package :: string
  Line :: string
  Done :: bool

text \<open>
  The interface \<^verbatim>\<open>PackageManager\<close>. A manager has a state of its own (\<open>'s\<close>: what is in
  \<^verbatim>\<open>node_modules\<close>, or the calls a test double has seen). \<open>pm_Install\<close> and
  \<open>pm_Update\<close> take that state, the directory and the packages, and return the new
  state, the progress values they send on the channel, in the order the receiver gets
  them, and the error they return. The engine never calls \<^verbatim>\<open>ListInstalled\<close>.
\<close>

record 's PackageManager =
  pm_Name :: string
  pm_Install :: "'s \<Rightarrow> string \<Rightarrow> string list \<Rightarrow> 's \<times> Progress list \<times> error option"
  pm_Update :: "'s \<Rightarrow> string \<Rightarrow> string list \<Rightarrow> 's \<times> Progress list \<times> error option"

section \<open>The world: disk, memory, package-manager state, and what has been observed\<close>

text \<open>
  A write fault says how \<^verbatim>\<open>os.WriteFile\<close> fails on a path: \<open>OpenFails\<close> before the
  file is opened (nothing changes), \<open>WriteFails n\<close> after the file was opened (and so
  truncated) and \<open>n\<close> bytes have reached it. The documentation of \<^verbatim>\<open>os.WriteFile\<close>:
  "Since WriteFile requires multiple system calls to complete, a failure mid-operation
  can leave the file in a partially written state."
\<close>

datatype write_fault = OpenFails os_error | WriteFails nat os_error

record disk =
  files :: "string \<rightharpoonup> string"
  dirs :: "string set"
  mkdir_fault :: "string \<rightharpoonup> os_error"
  write_fault :: "string \<rightharpoonup> write_fault"
  read_fault :: "string \<rightharpoonup> os_error"

datatype event =
    EvLog string
  | EvOnStep nat nat string
  | EvOnLine string
  | EvInstall string "string list" "error option"
  | EvUpdate string "string list" "error option"
  | EvMkdirAll string
  | EvWriteFile string string
  | EvReadFile string

text \<open>
  \<open>arrays\<close> is the memory of the arrays of components that the caller's manifests refer
  to.
\<close>

record 's world =
  disk :: disk
  arrays :: arrays
  pm_state :: 's
  trace :: "event list"

definition emit :: "event \<Rightarrow> 's world \<Rightarrow> 's world" where
  "emit e w = w\<lparr>trace := trace w @ [e]\<rparr>"

definition MkdirAll :: "string \<Rightarrow> 's world \<Rightarrow> 's world \<times> os_error option" where
  "MkdirAll p w =
     (let w1 = emit (EvMkdirAll p) w in
      case mkdir_fault (disk w1) p of
        Some e \<Rightarrow> (w1, Some e)
      | None \<Rightarrow> (w1\<lparr>disk := (disk w1)\<lparr>dirs := insert p (dirs (disk w1))\<rparr>\<rparr>, None))"

definition WriteFile :: "string \<Rightarrow> string \<Rightarrow> 's world \<Rightarrow> 's world \<times> os_error option" where
  "WriteFile p data w =
     (let w1 = emit (EvWriteFile p data) w in
      case write_fault (disk w1) p of
        None \<Rightarrow> (w1\<lparr>disk := (disk w1)\<lparr>files := (files (disk w1))(p \<mapsto> data)\<rparr>\<rparr>, None)
      | Some (OpenFails e) \<Rightarrow> (w1, Some e)
      | Some (WriteFails n e) \<Rightarrow>
          (w1\<lparr>disk := (disk w1)\<lparr>files := (files (disk w1))(p \<mapsto> take n data)\<rparr>\<rparr>, Some e))"

text \<open>
  \<^verbatim>\<open>os.ReadFile\<close> fails with the read fault of the path, if it has one, whether or not
  the file exists: for a path under a regular file it fails with \<open>ErrNotDir\<close>, for one
  in a directory that may not be searched with \<open>ErrPermission\<close>. With no fault, it
  fails with \<open>ErrNotExist\<close> if there is no file.
\<close>

definition ReadFile :: "string \<Rightarrow> 's world \<Rightarrow> 's world \<times> (os_error + string)" where
  "ReadFile p w =
     (let w1 = emit (EvReadFile p) w in
      case read_fault (disk w1) p of
        Some e \<Rightarrow> (w1, Inl e)
      | None \<Rightarrow>
          (case files (disk w1) p of
             None \<Rightarrow> (w1, Inl ErrNotExist)
           | Some data \<Rightarrow> (w1, Inr data)))"

section \<open>Configuration snapshot store (package config)\<close>

definition configVersion :: int where
  "configVersion = 1"

definition configDir :: string where
  "configDir = ''.kb''"

definition configFile :: string where
  "configFile = ''kb.config.json''"

definition ConfigPath :: "sys \<Rightarrow> string \<Rightarrow> string" where
  "ConfigPath sys platformDir = filepath_Join sys [platformDir, configDir, configFile]"

definition Write :: "sys \<Rightarrow> string \<Rightarrow> PlatformConfig \<Rightarrow> 's world \<Rightarrow> 's world \<times> error option" where
  "Write sys platformDir cfg w =
     (let dir = filepath_Join sys [platformDir, configDir] in
      case MkdirAll dir w of
        (w1, Some err) \<Rightarrow> (w1, Some (Wrap ''create config dir'' (OsError err)))
      | (w1, None) \<Rightarrow>
          (case json_MarshalIndent sys cfg of
             None \<Rightarrow> (w1, Some (Wrap ''marshal config'' JsonError))
           | Some data \<Rightarrow>
               (let path = filepath_Join sys [dir, configFile] in
                case WriteFile path data w1 of
                  (w2, Some err) \<Rightarrow> (w2, Some (Wrap ''write config'' (OsError err)))
                | (w2, None) \<Rightarrow> (w2, None))))"

definition Read :: "sys \<Rightarrow> string \<Rightarrow> 's world \<Rightarrow> 's world \<times> (error + PlatformConfig)" where
  "Read sys platformDir w =
     (let path = ConfigPath sys platformDir in
      case ReadFile path w of
        (w1, Inl err) \<Rightarrow>
          (if IsNotExist err then (w1, Inl (NoConfig path))
           else (w1, Inl (Wrap ''read config'' (OsError err))))
      | (w1, Inr data) \<Rightarrow>
          (case json_Unmarshal sys data of
             None \<Rightarrow> (w1, Inl (Wrap ''parse config'' JsonError))
           | Some cfg \<Rightarrow> (w1, Inr cfg)))"

text \<open>\<open>now\<close> is the value of \<^verbatim>\<open>time.Now().UTC()\<close> at the call.\<close>

definition NewConfig :: "sys \<Rightarrow> int \<Rightarrow> string \<Rightarrow> string \<Rightarrow> string \<Rightarrow> ManifestValue \<Rightarrow> PlatformConfig" where
  "NewConfig sys now platformDir cwd pmName m =
     (let absDir = filepath_Abs sys platformDir;
          absCWD = filepath_Abs sys cwd
      in \<lparr>InstalledAt = now, Platform = absDir, CWD = absCWD, PM = pmName,
          Manifest = m, cfg_Version = configVersion\<rparr>)"

section \<open>Orchestration engine (package installer)\<close>

record Selection =
  PlatformDir :: string
  ProjectCWD :: string
  sel_Services :: "string list"
  sel_Plugins :: "string list"

record Result =
  res_PlatformDir :: string
  res_ProjectCWD :: string
  res_ConfigPath :: string
  res_Duration :: int

record UpdateDiff =
  Updated :: "string list"
  Added :: "string list"
  Removed :: "string list"

definition HasChanges :: "UpdateDiff \<Rightarrow> bool" where
  "HasChanges d = (length (Updated d) + length (Added d) + length (Removed d) > 0)"

record UpdateResult =
  upd_Diff :: UpdateDiff
  upd_Duration :: int

text \<open>
  \<open>OnStep\<close> and \<open>OnLine\<close> say whether the callback is set (not \<^verbatim>\<open>nil\<close>); a call of
  a callback is an event of the trace, and so is every line printed to \<^verbatim>\<open>ins.Log\<close>.
\<close>

record 's Installer =
  ins_PM :: "'s PackageManager"
  OnStep :: bool
  OnLine :: bool

text \<open>What \<^verbatim>\<open>%d\<close> prints for a number that is not negative.\<close>

fun itoa :: "nat \<Rightarrow> string" where
  "itoa n = (if n < 10 then [''0123456789'' ! n] else itoa (n div 10) @ [''0123456789'' ! (n mod 10)])"

declare itoa.simps [simp del]

fun strings_Join :: "string list \<Rightarrow> string \<Rightarrow> string" where
  "strings_Join [] sep = []"
| "strings_Join [x] sep = x"
| "strings_Join (x # y # ys) sep = x @ sep @ strings_Join (y # ys) sep"

definition Printf :: "string \<Rightarrow> 's world \<Rightarrow> 's world" where
  "Printf line w = emit (EvLog line) w"

definition step :: "'s Installer \<Rightarrow> nat \<Rightarrow> nat \<Rightarrow> string \<Rightarrow> 's world \<Rightarrow> 's world" where
  "step ins n tot label w =
     (let w1 = Printf (''['' @ itoa n @ ''/'' @ itoa tot @ ''] '' @ label) w
      in if OnStep ins then emit (EvOnStep n tot label) w1 else w1)"

text \<open>
  The methods \<^verbatim>\<open>ins.PM.Install\<close> and \<^verbatim>\<open>ins.PM.Update\<close> as \<^verbatim>\<open>runGroup\<close> receives
  them: the call and the error it returned are recorded in the trace.
\<close>

definition PM_Install ::
  "'s PackageManager \<Rightarrow> string \<Rightarrow> string list \<Rightarrow> 's world \<Rightarrow> 's world \<times> Progress list \<times> error option" where
  "PM_Install pm dir pkgs w =
     (case pm_Install pm (pm_state w) dir pkgs of
        (s, sent, err) \<Rightarrow> (emit (EvInstall dir pkgs err) (w\<lparr>pm_state := s\<rparr>), sent, err))"

definition PM_Update ::
  "'s PackageManager \<Rightarrow> string \<Rightarrow> string list \<Rightarrow> 's world \<Rightarrow> 's world \<times> Progress list \<times> error option" where
  "PM_Update pm dir pkgs w =
     (case pm_Update pm (pm_state w) dir pkgs of
        (s, sent, err) \<Rightarrow> (emit (EvUpdate dir pkgs err) (w\<lparr>pm_state := s\<rparr>), sent, err))"

text \<open>The body of the loop of the drain goroutine, for one received value.\<close>

definition drain :: "'s Installer \<Rightarrow> Progress \<Rightarrow> 's world \<Rightarrow> 's world" where
  "drain ins p w =
     (if Line p = [] then w
      else (let w1 = Printf (''  '' @ Line p) w
            in if OnLine ins then emit (EvOnLine (Line p)) w1 else w1))"

text \<open>
  \<^verbatim>\<open>runGroup\<close> starts the drain goroutine, calls \<open>op\<close>, closes the channel and waits
  for the goroutine. The model is sequential: the values \<open>op\<close> sent are drained, in
  the order the goroutine receives them, after \<open>op\<close> has returned. So the event of the
  call, which carries the error \<open>op\<close> returned, comes before the lines of that call in
  the trace; nothing below depends on that order.
\<close>

definition runGroup ::
  "'s Installer \<Rightarrow> string \<Rightarrow> string list \<Rightarrow>
   (string \<Rightarrow> string list \<Rightarrow> 's world \<Rightarrow> 's world \<times> Progress list \<times> error option) \<Rightarrow>
   's world \<Rightarrow> 's world \<times> error option" where
  "runGroup ins dir pkgs op w =
     (case op dir pkgs w of (w1, sent, err) \<Rightarrow> (fold (drain ins) sent w1, err))"

definition installGroup :: "'s Installer \<Rightarrow> string \<Rightarrow> string list \<Rightarrow> 's world \<Rightarrow> 's world \<times> error option" where
  "installGroup ins dir pkgs w = runGroup ins dir pkgs (PM_Install (ins_PM ins)) w"

definition updateGroup :: "'s Installer \<Rightarrow> string \<Rightarrow> string list \<Rightarrow> 's world \<Rightarrow> 's world \<times> error option" where
  "updateGroup ins dir pkgs w = runGroup ins dir pkgs (PM_Update (ins_PM ins)) w"

text \<open>
  Reading a \<^verbatim>\<open>map[string]bool\<close> at a key it does not hold gives \<^verbatim>\<open>false\<close>.
\<close>

definition index :: "(string \<rightharpoonup> bool) \<Rightarrow> string \<Rightarrow> bool" where
  "index s k = (case s k of None \<Rightarrow> False | Some b \<Rightarrow> b)"

definition selectedPkgs :: "Component list \<Rightarrow> string list \<Rightarrow> string list" where
  "selectedPkgs components ids =
     (let idset = fold (\<lambda>id s. s(id \<mapsto> True)) ids Map.empty
      in fold (\<lambda>c out. if index idset (ID c) then out @ [Pkg c] else out) components [])"

text \<open>
  \<^verbatim>\<open>pkgSet\<close> gets the struct by value: a copy of the slice headers, which share their
  arrays with the caller's. Its \<^verbatim>\<open>append(m.Services, m.Plugins...)\<close> may write into the
  array of \<^verbatim>\<open>m.Services\<close>, so it returns the memory too.
\<close>

definition pkgSet :: "arrays \<Rightarrow> slice Manifest \<Rightarrow> arrays \<times> (string \<rightharpoonup> bool)" where
  "pkgSet a m =
     (let s = fold (\<lambda>p s. s(Name p \<mapsto> True)) (Core m) Map.empty;
          (a1, cs) = go_append a (Services m) (Plugins m)
      in (a1, fold (\<lambda>c s. s(Pkg c \<mapsto> True)) cs s))"

text \<open>
  \<open>clk i\<close> is what the \<open>i\<close>-th reading of the clock during the call returns
  (\<^verbatim>\<open>time.Now\<close>, \<^verbatim>\<open>time.Since\<close>).

  \<^verbatim>\<open>Install\<close> only reads the manifest it is given, and nothing else runs meanwhile:
  \<open>m\<close> is the value of \<^verbatim>\<open>*m\<close>.
\<close>

definition Install ::
  "sys \<Rightarrow> (nat \<Rightarrow> int) \<Rightarrow> 's Installer \<Rightarrow> Selection \<Rightarrow> ManifestValue \<Rightarrow> 's world \<Rightarrow>
   's world \<times> (error + Result)" where
  "Install sys clk ins sel m w =
     (let start = clk 0;
          allPkgs = CorePackageNames m;
          allPkgs = allPkgs @ selectedPkgs (Services m) (sel_Services sel);
          allPkgs = allPkgs @ selectedPkgs (Plugins m) (sel_Plugins sel);
          w1 = step ins 1 2
                 (''Installing '' @ itoa (length allPkgs) @ '' packages via '' @ pm_Name (ins_PM ins)) w
      in case installGroup ins (PlatformDir sel) allPkgs w1 of
           (w2, Some err) \<Rightarrow> (w2, Inl (Wrap ''install'' err))
         | (w2, None) \<Rightarrow>
             (let w3 = step ins 2 2 ''Writing config'' w2;
                  cfg = NewConfig sys (clk 1) (PlatformDir sel) (ProjectCWD sel) (pm_Name (ins_PM ins)) m
              in case Write sys (PlatformDir sel) cfg w3 of
                   (w4, Some err) \<Rightarrow> (w4, Inl (Wrap ''config'' err))
                 | (w4, None) \<Rightarrow>
                     (case MkdirAll (ProjectCWD sel @ ''/.kb'') w4 of
                        (w5, Some err) \<Rightarrow> (w5, Inl (Wrap ''project dir'' (OsError err)))
                      | (w5, None) \<Rightarrow>
                          (w5, Inr \<lparr>res_PlatformDir = PlatformDir sel,
                                    res_ProjectCWD = ProjectCWD sel,
                                    res_ConfigPath = ConfigPath sys (PlatformDir sel),
                                    res_Duration = clk 2 - start\<rparr>))))"

text \<open>
  The receiver of \<^verbatim>\<open>Diff\<close> is not used by its body. \<open>current\<close> is the struct
  \<^verbatim>\<open>*current\<close>, with its slice headers, in the memory of the world. \<^verbatim>\<open>cfg.Manifest\<close> has
  just been decoded: its arrays are its own, and what \<^verbatim>\<open>pkgSet\<close> writes into them is
  dropped with them.
\<close>

definition Diff :: "sys \<Rightarrow> string \<Rightarrow> slice Manifest \<Rightarrow> 's world \<Rightarrow> 's world \<times> (error + UpdateDiff)" where
  "Diff sys platformDir current w =
     (case Read sys platformDir w of
        (w1, Inl err) \<Rightarrow> (w1, Inl err)
      | (w1, Inr cfg) \<Rightarrow>
          (let installed = snd (pkgSet (arrays_of (Manifest cfg)) (headers_of (Manifest cfg)));
               (a1, currentSet) = pkgSet (arrays w1) current;
               w1 = w1\<lparr>arrays := a1\<rparr>;
               diff = \<lparr>Updated = [], Added = [], Removed = []\<rparr>;
               diff = fold (\<lambda>pkg d. if installed pkg = None
                                     then d\<lparr>Added := Added d @ [pkg]\<rparr>
                                     else d\<lparr>Updated := Updated d @ [pkg]\<rparr>)
                        (range_keys sys currentSet) diff;
               diff = fold (\<lambda>pkg d. if currentSet pkg = None
                                     then d\<lparr>Removed := Removed d @ [pkg]\<rparr>
                                     else d)
                        (range_keys sys installed) diff
           in (w1, Inr diff)))"

text \<open>
  \<^verbatim>\<open>cfg.Manifest = *current\<close> copies the slice headers; what \<^verbatim>\<open>config.Write\<close> serialises
  is what they hold at that moment.
\<close>

definition Update ::
  "sys \<Rightarrow> (nat \<Rightarrow> int) \<Rightarrow> 's Installer \<Rightarrow> string \<Rightarrow> slice Manifest \<Rightarrow> 's world \<Rightarrow>
   's world \<times> (error + UpdateResult)" where
  "Update sys clk ins platformDir current w =
     (let start = clk 0 in
      case Diff sys platformDir current w of
        (w1, Inl err) \<Rightarrow> (w1, Inl err)
      | (w1, Inr diff) \<Rightarrow>
          (case (if length (Added diff) > 0
                 then installGroup ins platformDir (Added diff)
                        (Printf (''Installing new packages: '' @ strings_Join (Added diff) '' '') w1)
                 else (w1, None)) of
             (w2, Some err) \<Rightarrow> (w2, Inl (Wrap ''add new packages'' err))
           | (w2, None) \<Rightarrow>
               (let allPkgs = CorePackageNames current;
                    (a2, cs) = go_append (arrays w2) (Services current) (Plugins current);
                    w2 = w2\<lparr>arrays := a2\<rparr>;
                    allPkgs = fold (\<lambda>c acc. acc @ [Pkg c]) cs allPkgs
                in case updateGroup ins platformDir allPkgs w2 of
                     (w3, Some err) \<Rightarrow> (w3, Inl (Wrap ''update packages'' err))
                   | (w3, None) \<Rightarrow>
                       (case Read sys platformDir w3 of
                          (w4, Inl err) \<Rightarrow> (w4, Inl err)
                        | (w4, Inr cfg) \<Rightarrow>
                            (case Write sys platformDir (cfg\<lparr>Manifest := load (arrays w4) current\<rparr>) w4 of
                               (w5, Some err) \<Rightarrow> (w5, Inl err)
                             | (w5, None) \<Rightarrow>
                                 (w5, Inr \<lparr>upd_Diff = diff, upd_Duration = clk 1 - start\<rparr>))))))"

section \<open>Reading the trace\<close>

text \<open>The events a run has added to the trace: \<open>w\<close> before the run, \<open>w'\<close> after it.\<close>

definition new_events :: "'s world \<Rightarrow> 's world \<Rightarrow> event list" where
  "new_events w w' = drop (length (trace w)) (trace w')"

datatype call = CallInstall string "string list" | CallUpdate string "string list"

text \<open>The calls of the package manager among the events, in order, with their arguments.\<close>

fun pm_calls :: "event list \<Rightarrow> call list" where
  "pm_calls [] = []"
| "pm_calls (EvInstall dir pkgs err # es) = CallInstall dir pkgs # pm_calls es"
| "pm_calls (EvUpdate dir pkgs err # es) = CallUpdate dir pkgs # pm_calls es"
| "pm_calls (e # es) = pm_calls es"

text \<open>The attempts to change the disk among the events.\<close>

fun fs_writes :: "event list \<Rightarrow> event list" where
  "fs_writes [] = []"
| "fs_writes (EvMkdirAll p # es) = EvMkdirAll p # fs_writes es"
| "fs_writes (EvWriteFile p data # es) = EvWriteFile p data # fs_writes es"
| "fs_writes (e # es) = fs_writes es"

text \<open>
  The events the drain goroutine of \<^verbatim>\<open>runGroup\<close> adds for the values it receives: a
  log line, and a call of \<^verbatim>\<open>OnLine\<close> if it is set, for every value whose line is not
  empty.
\<close>

fun drained :: "'s Installer \<Rightarrow> Progress list \<Rightarrow> event list" where
  "drained ins [] = []"
| "drained ins (p # ps) =
     (if Line p = [] then drained ins ps
      else EvLog (''  '' @ Line p) # (if OnLine ins then [EvOnLine (Line p)] else []) @ drained ins ps)"

section \<open>The specification's notions\<close>

text \<open>
  The package references of a manifest: the names of its core packages and the
  package references of all its services and plugins.
\<close>

definition package_refs :: "ManifestValue \<Rightarrow> string set" where
  "package_refs m = Name ` set (Core m) \<union> Pkg ` set (Services m) \<union> Pkg ` set (Plugins m)"

text \<open>The package references of the components whose id is among the chosen ids.\<close>

definition chosen_refs :: "Component list \<Rightarrow> string list \<Rightarrow> string set" where
  "chosen_refs components ids = Pkg ` {c \<in> set components. ID c \<in> set ids}"

text \<open>
  The snapshot file of a platform directory holds the complete serialisation of one of
  the records \<open>written\<close>, or there is no snapshot file.
\<close>

definition snapshot_complete :: "sys \<Rightarrow> string \<Rightarrow> PlatformConfig list \<Rightarrow> 's world \<Rightarrow> bool" where
  "snapshot_complete sys platformDir written w =
     (case files (disk w) (ConfigPath sys platformDir) of
        None \<Rightarrow> True
      | Some data \<Rightarrow> list_ex (\<lambda>cfg. json_MarshalIndent sys cfg = Some data) written)"

section \<open>Assumptions on the standard library and the disk\<close>

text \<open>
  \<^verbatim>\<open>filepath.Join\<close> builds the same path in one call and in two: \<^verbatim>\<open>config.Write\<close>
  joins the directory first and the file name after, \<^verbatim>\<open>config.ConfigPath\<close> joins all
  three elements at once.
\<close>

definition join_nests :: "sys \<Rightarrow> string \<Rightarrow> bool" where
  "join_nests sys platformDir =
     (filepath_Join sys [filepath_Join sys [platformDir, configDir], configFile]
        = filepath_Join sys [platformDir, configDir, configFile])"



text \<open>No \<^verbatim>\<open>os.WriteFile\<close> on the path fails after the file has been opened.\<close>

definition no_short_write :: "disk \<Rightarrow> string \<Rightarrow> bool" where
  "no_short_write d p =
     (case write_fault d p of
        None \<Rightarrow> True
      | Some (OpenFails e) \<Rightarrow> True
      | Some (WriteFails n e) \<Rightarrow> False)"

text \<open>
  \<^verbatim>\<open>append(m.Services, m.Plugins...)\<close> writes into no element that a slice of the
  manifest holds: the Services slice lies within its array, and there are no plugins,
  or the capacity of the Services slice cannot take them, so that \<^verbatim>\<open>append\<close> copies into
  a new array, or the Plugins slice has another array. Every manifest that is decoded
  from JSON or written as a literal is so.
\<close>

definition own_capacity :: "arrays \<Rightarrow> slice Manifest \<Rightarrow> bool" where
  "own_capacity a m =
     (off (Services m) + len (Services m) \<le> length (a (arr (Services m))) \<and>
      (len (Plugins m) = 0 \<or>
       cap (Services m) < len (Services m) + len (Plugins m) \<or>
       arr (Services m) \<noteq> arr (Plugins m)))"

section \<open>Examples\<close>

text \<open>The test double \<^verbatim>\<open>fakePM\<close> of the installer's tests; its state is \<^verbatim>\<open>calls\<close>.\<close>

fun fake_Install :: "string \<Rightarrow> error option \<Rightarrow> string list \<Rightarrow> string list \<Rightarrow> string list \<times> error option" where
  "fake_Install failOn failErr calls [] = (calls, None)"
| "fake_Install failOn failErr calls (p # pkgs) =
     (if failOn = p then (calls @ [''install:'' @ p], failErr)
      else fake_Install failOn failErr (calls @ [''install:'' @ p]) pkgs)"

definition fakePM :: "string \<Rightarrow> string \<Rightarrow> error option \<Rightarrow> (string list) PackageManager" where
  "fakePM name failOn failErr =
     \<lparr>pm_Name = name,
      pm_Install = (\<lambda>calls dir pkgs.
         case fake_Install failOn failErr calls pkgs of (calls', err) \<Rightarrow> (calls', [], err)),
      pm_Update = (\<lambda>calls dir pkgs. (calls @ map (\<lambda>p. ''update:'' @ p) pkgs, [], None))\<rparr>"

text \<open>A package manager that installs, reporting two lines, and cannot update.\<close>

definition offlinePM :: "(string list) PackageManager" where
  "offlinePM =
     \<lparr>pm_Name = ''pnpm'',
      pm_Install = (\<lambda>calls dir pkgs.
         (calls,
          [\<lparr>prog_Error = None, prog_Package = [], Line = ''added'', Done = False\<rparr>,
           \<lparr>prog_Error = None, prog_Package = [], Line = [], Done = False\<rparr>],
          None)),
      pm_Update = (\<lambda>calls dir pkgs. (calls, [], Some (PmError ''offline'')))\<rparr>"

definition ex_ins :: "string \<Rightarrow> error option \<Rightarrow> (string list) Installer" where
  "ex_ins failOn failErr = \<lparr>ins_PM = fakePM ''npm'' failOn failErr, OnStep = True, OnLine = False\<rparr>"

text \<open>
  The scenario of the specification: the snapshot holds the references A and B, the
  candidate manifest holds A and C.
\<close>

definition m_AB :: ManifestValue where
  "m_AB = \<lparr>Version = ''1.0.0'', RegistryURL = [], Core = [\<lparr>Name = ''A''\<rparr>],
           Services = [\<lparr>ID = ''s1'', Pkg = ''B'', Description = [], Default = True\<rparr>],
           Plugins = []\<rparr>"

definition m_AC :: ManifestValue where
  "m_AC = \<lparr>Version = ''1.1.0'', RegistryURL = [], Core = [\<lparr>Name = ''A''\<rparr>],
           Services = [],
           Plugins = [\<lparr>ID = ''p1'', Pkg = ''C'', Description = [], Default = False\<rparr>]\<rparr>"

text \<open>A manifest that lists the reference A as a core package and as a service.\<close>

definition m_AA :: ManifestValue where
  "m_AA = \<lparr>Version = ''1.0.0'', RegistryURL = [], Core = [\<lparr>Name = ''A''\<rparr>],
           Services = [\<lparr>ID = ''s1'', Pkg = ''A'', Description = [], Default = True\<rparr>],
           Plugins = []\<rparr>"

text \<open>
  The candidate manifest with a description that is not valid UTF-8 (the byte FF), and
  what \<^verbatim>\<open>encoding/json\<close> reads back for it: the description is the replacement rune
  U+FFFD, the bytes EF BF BD.
\<close>

definition m_bad :: ManifestValue where
  "m_bad = \<lparr>Version = ''1.1.0'', RegistryURL = [], Core = [\<lparr>Name = ''A''\<rparr>],
            Services = [],
            Plugins = [\<lparr>ID = ''p1'', Pkg = ''C'', Description = [CHR 0xFF], Default = False\<rparr>]\<rparr>"

definition m_coerced :: ManifestValue where
  "m_coerced = \<lparr>Version = ''1.1.0'', RegistryURL = [], Core = [\<lparr>Name = ''A''\<rparr>],
                Services = [],
                Plugins = [\<lparr>ID = ''p1'', Pkg = ''C'',
                            Description = [CHR 0xEF, CHR 0xBF, CHR 0xBD], Default = False\<rparr>]\<rparr>"




definition m_ABB :: ManifestValue where
  "m_ABB = \<lparr>Version = ''1.1.0'', RegistryURL = [], Core = [\<lparr>Name = ''A''\<rparr>],
            Services = [\<lparr>ID = ''b'', Pkg = ''B'', Description = [], Default = True\<rparr>],
            Plugins = [\<lparr>ID = ''b'', Pkg = ''B'', Description = [], Default = True\<rparr>,
                       \<lparr>ID = ''b'', Pkg = ''B'', Description = [], Default = True\<rparr>]\<rparr>"

definition cfg_AB :: PlatformConfig where
  "cfg_AB = \<lparr>InstalledAt = 100, Platform = ''/p'', CWD = ''/proj'', PM = ''npm'',
             Manifest = m_AB, cfg_Version = 1\<rparr>"

text \<open>
  A stand-in for the standard library: paths are joined with a slash, and the codec
  knows the records of the examples. It reads back what it wrote, except for the
  record with the manifest \<open>m_bad\<close>, which it reads back with the manifest \<open>m_coerced\<close>.
\<close>

definition ex_sys :: sys where
  "ex_sys = \<lparr>filepath_Join = (\<lambda>elem. strings_Join elem ''/''),
             filepath_Abs = (\<lambda>p. p),
             json_MarshalIndent = (\<lambda>c. if c = cfg_AB then Some ''{AB}''
                                        else if c = cfg_AB\<lparr>Manifest := m_AC\<rparr> then Some ''{AC}''
                                        else if c = cfg_AB\<lparr>Manifest := m_bad\<rparr> then Some ''{AC?}''
                                        else if c = cfg_AB\<lparr>Manifest := m_ABB\<rparr> then Some ''{ABB}''
                                        else None),
             json_Unmarshal = (\<lambda>data. if data = ''{AB}'' then Some cfg_AB
                                         else if data = ''{AC}'' then Some (cfg_AB\<lparr>Manifest := m_AC\<rparr>)
                                         else if data = ''{AC?}'' then Some (cfg_AB\<lparr>Manifest := m_coerced\<rparr>)
                                         else if data = ''{ABB}'' then Some (cfg_AB\<lparr>Manifest := m_ABB\<rparr>)
                                         else None),
             range_keys = (\<lambda>m. filter (\<lambda>k. m k \<noteq> None) [''A'', ''B'', ''C''])\<rparr>"

definition ex_disk ::
  "(string \<rightharpoonup> string) \<Rightarrow> (string \<rightharpoonup> write_fault) \<Rightarrow> (string \<rightharpoonup> os_error) \<Rightarrow> disk" where
  "ex_disk fs wfaults rfaults =
     \<lparr>files = fs, dirs = {}, mkdir_fault = Map.empty, write_fault = wfaults,
      read_fault = rfaults\<rparr>"

definition ex_world ::
  "(string \<rightharpoonup> string) \<Rightarrow> (string \<rightharpoonup> write_fault) \<Rightarrow> (string \<rightharpoonup> os_error) \<Rightarrow> arrays \<Rightarrow>
   string list world" where
  "ex_world fs wfaults rfaults a =
     \<lparr>disk = ex_disk fs wfaults rfaults, arrays = a, pm_state = [], trace = []\<rparr>"

text \<open>
  A world with no snapshot, and a world after an installation of \<open>m_AB\<close>. The memory
  of both holds the candidate manifest \<open>m_AC\<close>, with the headers \<open>headers_of m_AC\<close>.
\<close>

definition w_fresh :: "string list world" where
  "w_fresh = ex_world Map.empty Map.empty Map.empty (arrays_of m_AC)"

definition w_AB :: "string list world" where
  "w_AB = ex_world [''/p/.kb/kb.config.json'' \<mapsto> ''{AB}''] Map.empty Map.empty (arrays_of m_AC)"

text \<open>A world with no snapshot whose disk fills up two bytes into the snapshot file.\<close>

definition w_full :: "string list world" where
  "w_full = ex_world Map.empty [''/p/.kb/kb.config.json'' \<mapsto> WriteFails 2 ErrNoSpace] Map.empty
              (arrays_of m_AC)"

text \<open>
  A world with no snapshot where \<^verbatim>\<open>/p/.kb\<close> is a regular file: reading a path under
  it fails with \<open>ErrNotDir\<close>.
\<close>

definition w_notdir :: "string list world" where
  "w_notdir = ex_world [''/p/.kb'' \<mapsto> ''x''] Map.empty
                [''/p/.kb/kb.config.json'' \<mapsto> ErrNotDir] (arrays_of m_AC)"



definition sel_AB :: "string list \<Rightarrow> Selection" where
  "sel_AB ids = \<lparr>PlatformDir = ''/p'', ProjectCWD = ''/proj'', sel_Services = ids, sel_Plugins = []\<rparr>"

section \<open>Events, disk and package-manager state of the basic operations\<close>

lemmas ex_defs = ex_sys_def ex_world_def ex_disk_def w_AB_def w_fresh_def w_full_def sel_AB_def
  m_AB_def m_AC_def m_AA_def m_bad_def m_coerced_def m_ABB_def cfg_AB_def ex_ins_def fakePM_def
  offlinePM_def configDir_def configFile_def

lemmas fs_defs = Read_def Write_def ConfigPath_def ReadFile_def WriteFile_def MkdirAll_def emit_def

lemma emit_simps [simp]:
  "trace (emit e w) = trace w @ [e]" "disk (emit e w) = disk w" "pm_state (emit e w) = pm_state w"
  "arrays (emit e w) = arrays w"
  by (simp_all add: emit_def)

lemma Printf_simps [simp]:
  "trace (Printf l w) = trace w @ [EvLog l]" "disk (Printf l w) = disk w"
  "pm_state (Printf l w) = pm_state w" "arrays (Printf l w) = arrays w"
  by (simp_all add: Printf_def)

lemma step_simps [simp]:
  "trace (step ins n tot label w) =
     trace w @ EvLog (''['' @ itoa n @ ''/'' @ itoa tot @ ''] '' @ label) #
       (if OnStep ins then [EvOnStep n tot label] else [])"
  "disk (step ins n tot label w) = disk w"
  "pm_state (step ins n tot label w) = pm_state w"
  "arrays (step ins n tot label w) = arrays w"
  by (simp_all add: step_def Let_def)

lemma fold_drain:
  "fold (drain ins) sent w = w\<lparr>trace := trace w @ drained ins sent\<rparr>"
  by (induction sent arbitrary: w) (simp_all add: drain_def Printf_def emit_def Let_def)

lemma pm_calls_append [simp]: "pm_calls (xs @ ys) = pm_calls xs @ pm_calls ys"
  by (induction xs rule: pm_calls.induct) simp_all

lemma fs_writes_append [simp]: "fs_writes (xs @ ys) = fs_writes xs @ fs_writes ys"
  by (induction xs rule: fs_writes.induct) simp_all

lemma pm_calls_drained [simp]: "pm_calls (drained ins sent) = []"
  by (induction sent) simp_all

lemma fs_writes_drained [simp]: "fs_writes (drained ins sent) = []"
  by (induction sent) simp_all

lemma new_events_append: "trace w' = trace w @ evs \<Longrightarrow> new_events w w' = evs"
  by (simp add: new_events_def)

lemma installGroup_eq:
  "installGroup ins dir pkgs w =
     (case pm_Install (ins_PM ins) (pm_state w) dir pkgs of
        (s, sent, err) \<Rightarrow>
          (w\<lparr>pm_state := s, trace := trace w @ EvInstall dir pkgs err # drained ins sent\<rparr>, err))"
  by (simp add: installGroup_def runGroup_def PM_Install_def fold_drain emit_def split: prod.splits)

lemma updateGroup_eq:
  "updateGroup ins dir pkgs w =
     (case pm_Update (ins_PM ins) (pm_state w) dir pkgs of
        (s, sent, err) \<Rightarrow>
          (w\<lparr>pm_state := s, trace := trace w @ EvUpdate dir pkgs err # drained ins sent\<rparr>, err))"
  by (simp add: updateGroup_def runGroup_def PM_Update_def fold_drain emit_def split: prod.splits)

lemma Write_eq:
  "Write sys platformDir cfg w =
     (let dir = filepath_Join sys [platformDir, configDir];
          path = filepath_Join sys [dir, configFile]
      in case mkdir_fault (disk w) dir of
           Some e \<Rightarrow> (w\<lparr>trace := trace w @ [EvMkdirAll dir]\<rparr>,
                       Some (Wrap ''create config dir'' (OsError e)))
         | None \<Rightarrow>
             (case json_MarshalIndent sys cfg of
                None \<Rightarrow> (w\<lparr>disk := (disk w)\<lparr>dirs := insert dir (dirs (disk w))\<rparr>,
                             trace := trace w @ [EvMkdirAll dir]\<rparr>,
                          Some (Wrap ''marshal config'' JsonError))
              | Some data \<Rightarrow>
                  (case write_fault (disk w) path of
                     None \<Rightarrow>
                       (w\<lparr>disk := (disk w)\<lparr>dirs := insert dir (dirs (disk w)),
                                               files := (files (disk w))(path \<mapsto> data)\<rparr>,
                          trace := trace w @ [EvMkdirAll dir, EvWriteFile path data]\<rparr>, None)
                   | Some (OpenFails e) \<Rightarrow>
                       (w\<lparr>disk := (disk w)\<lparr>dirs := insert dir (dirs (disk w))\<rparr>,
                          trace := trace w @ [EvMkdirAll dir, EvWriteFile path data]\<rparr>,
                        Some (Wrap ''write config'' (OsError e)))
                   | Some (WriteFails n e) \<Rightarrow>
                       (w\<lparr>disk := (disk w)\<lparr>dirs := insert dir (dirs (disk w)),
                                               files := (files (disk w))(path \<mapsto> take n data)\<rparr>,
                          trace := trace w @ [EvMkdirAll dir, EvWriteFile path data]\<rparr>,
                        Some (Wrap ''write config'' (OsError e))))))"
  by (simp add: Write_def MkdirAll_def WriteFile_def emit_def Let_def
      split: option.splits write_fault.splits)

lemma installGroup_simps [simp]:
  "snd (installGroup ins dir pkgs w) = snd (snd (pm_Install (ins_PM ins) (pm_state w) dir pkgs))"
  "trace (fst (installGroup ins dir pkgs w)) =
     trace w @ EvInstall dir pkgs (snd (snd (pm_Install (ins_PM ins) (pm_state w) dir pkgs))) #
       drained ins (fst (snd (pm_Install (ins_PM ins) (pm_state w) dir pkgs)))"
  "disk (fst (installGroup ins dir pkgs w)) = disk w"
  "pm_state (fst (installGroup ins dir pkgs w)) = fst (pm_Install (ins_PM ins) (pm_state w) dir pkgs)"
  "arrays (fst (installGroup ins dir pkgs w)) = arrays w"
  by (simp_all add: installGroup_eq split: prod.splits)

lemma updateGroup_simps [simp]:
  "snd (updateGroup ins dir pkgs w) = snd (snd (pm_Update (ins_PM ins) (pm_state w) dir pkgs))"
  "trace (fst (updateGroup ins dir pkgs w)) =
     trace w @ EvUpdate dir pkgs (snd (snd (pm_Update (ins_PM ins) (pm_state w) dir pkgs))) #
       drained ins (fst (snd (pm_Update (ins_PM ins) (pm_state w) dir pkgs)))"
  "disk (fst (updateGroup ins dir pkgs w)) = disk w"
  "pm_state (fst (updateGroup ins dir pkgs w)) = fst (pm_Update (ins_PM ins) (pm_state w) dir pkgs)"
  "arrays (fst (updateGroup ins dir pkgs w)) = arrays w"
  by (simp_all add: updateGroup_eq split: prod.splits)

lemma MkdirAll_simps [simp]:
  "snd (MkdirAll p w) = mkdir_fault (disk w) p"
  "trace (fst (MkdirAll p w)) = trace w @ [EvMkdirAll p]"
  "pm_state (fst (MkdirAll p w)) = pm_state w"
  "arrays (fst (MkdirAll p w)) = arrays w"
  "files (disk (fst (MkdirAll p w))) = files (disk w)"
  "mkdir_fault (disk (fst (MkdirAll p w))) = mkdir_fault (disk w)"
  "write_fault (disk (fst (MkdirAll p w))) = write_fault (disk w)"
  "read_fault (disk (fst (MkdirAll p w))) = read_fault (disk w)"
  by (simp_all add: MkdirAll_def Let_def split: option.splits)

lemma Write_frame [simp]:
  "pm_state (fst (Write sys platformDir cfg w)) = pm_state w"
  "arrays (fst (Write sys platformDir cfg w)) = arrays w"
  "mkdir_fault (disk (fst (Write sys platformDir cfg w))) = mkdir_fault (disk w)"
  "write_fault (disk (fst (Write sys platformDir cfg w))) = write_fault (disk w)"
  "read_fault (disk (fst (Write sys platformDir cfg w))) = read_fault (disk w)"
  by (simp_all add: Write_eq Let_def split: option.splits write_fault.splits)

lemma Write_trace:
  "trace (fst (Write sys platformDir cfg w)) =
     trace w @ EvMkdirAll (filepath_Join sys [platformDir, configDir]) #
       (case mkdir_fault (disk w) (filepath_Join sys [platformDir, configDir]) of
          Some e \<Rightarrow> []
        | None \<Rightarrow>
            (case json_MarshalIndent sys cfg of
               None \<Rightarrow> []
             | Some data \<Rightarrow>
                 [EvWriteFile (filepath_Join sys [filepath_Join sys [platformDir, configDir], configFile])
                    data]))"
  by (simp add: Write_eq Let_def split: option.splits write_fault.splits)

lemma Write_ok_files:
  "snd (Write sys platformDir cfg w) = None \<Longrightarrow>
   json_MarshalIndent sys cfg \<noteq> None \<and>
   files (disk (fst (Write sys platformDir cfg w))) =
     (files (disk w))
       (filepath_Join sys [filepath_Join sys [platformDir, configDir], configFile] :=
          json_MarshalIndent sys cfg)"
  by (simp add: Write_eq Let_def split: option.splits write_fault.splits)

lemma Read_simps [simp]:
  "trace (fst (Read sys platformDir w)) = trace w @ [EvReadFile (ConfigPath sys platformDir)]"
  "disk (fst (Read sys platformDir w)) = disk w"
  "pm_state (fst (Read sys platformDir w)) = pm_state w"
  "arrays (fst (Read sys platformDir w)) = arrays w"
  by (simp_all add: Read_def ReadFile_def Let_def split: option.splits sum.splits)

lemma Read_result:
  "snd (Read sys platformDir w) =
     (case read_fault (disk w) (ConfigPath sys platformDir) of
        Some e \<Rightarrow> (if e = ErrNotExist then Inl (NoConfig (ConfigPath sys platformDir))
                    else Inl (Wrap ''read config'' (OsError e)))
      | None \<Rightarrow>
          (case files (disk w) (ConfigPath sys platformDir) of
             None \<Rightarrow> Inl (NoConfig (ConfigPath sys platformDir))
           | Some data \<Rightarrow>
               (case json_Unmarshal sys data of
                  None \<Rightarrow> Inl (Wrap ''parse config'' JsonError)
                | Some cfg \<Rightarrow> Inr cfg)))"
  by (simp add: Read_def ReadFile_def IsNotExist_def Let_def split: option.splits sum.splits)

section \<open>The diff\<close>

lemma dom_fold_upd:
  "dom (fold (\<lambda>x s. s(f x \<mapsto> True)) xs s0) = dom s0 \<union> f ` set xs"
  by (induction xs arbitrary: s0) auto

lemma snd_go_append: "snd (go_append a s t) = elems a s @ elems a t"
  by (simp add: go_append_def Let_def)

lemma load_headers_of: "load (arrays_of m) (headers_of m) = m"
  by (simp add: load_def arrays_of_def headers_of_def elems_def)

lemma dom_pkgSet: "dom (snd (pkgSet a m)) = package_refs (load a m)"
  by (auto simp: pkgSet_def package_refs_def load_def Let_def case_prod_beta snd_go_append
      dom_fold_upd)

lemma dom_pkgSet_value: "dom (snd (pkgSet (arrays_of m) (headers_of m))) = package_refs m"
  by (simp add: dom_pkgSet load_headers_of)

lemma fold_current:
  "fold (\<lambda>pkg d. if installed pkg = None then d\<lparr>Added := Added d @ [pkg]\<rparr>
                   else d\<lparr>Updated := Updated d @ [pkg]\<rparr>) ks d
   = d\<lparr>Added := Added d @ filter (\<lambda>k. installed k = None) ks,
        Updated := Updated d @ filter (\<lambda>k. installed k \<noteq> None) ks\<rparr>"
  by (induction ks arbitrary: d) auto

lemma fold_installed:
  "fold (\<lambda>pkg d. if currentSet pkg = None then d\<lparr>Removed := Removed d @ [pkg]\<rparr> else d) ks d
   = d\<lparr>Removed := Removed d @ filter (\<lambda>k. currentSet k = None) ks\<rparr>"
  by (induction ks arbitrary: d) auto

lemma Diff_Inr:
  assumes "snd (Read sys platformDir w) = Inr cfg"
  shows "Diff sys platformDir current w =
     ((fst (Read sys platformDir w))\<lparr>arrays := fst (pkgSet (arrays w) current)\<rparr>,
      Inr \<lparr>Updated = filter (\<lambda>k. snd (pkgSet (arrays_of (Manifest cfg)) (headers_of (Manifest cfg))) k \<noteq> None)
                       (range_keys sys (snd (pkgSet (arrays w) current))),
           Added = filter (\<lambda>k. snd (pkgSet (arrays_of (Manifest cfg)) (headers_of (Manifest cfg))) k = None)
                     (range_keys sys (snd (pkgSet (arrays w) current))),
           Removed = filter (\<lambda>k. snd (pkgSet (arrays w) current) k = None)
                       (range_keys sys (snd (pkgSet (arrays_of (Manifest cfg)) (headers_of (Manifest cfg)))))\<rparr>)"
proof -
  obtain w1 where r: "Read sys platformDir w = (w1, Inr cfg)"
    using assms by (cases "Read sys platformDir w") auto
  have "arrays (fst (Read sys platformDir w)) = arrays w"
    by simp
  then have "arrays w1 = arrays w"
    unfolding r by simp
  then show ?thesis
    by (simp add: Diff_def r Let_def case_prod_beta fold_current fold_installed)
qed

lemma HasChanges_sets:
  "HasChanges d \<longleftrightarrow> set (Added d) \<union> set (Removed d) \<union> set (Updated d) \<noteq> {}"
  by (auto simp: HasChanges_def)

text \<open>
  C1. For a stored snapshot with package references \<open>S\<close> and a candidate manifest with
  package references \<open>C\<close>, \<open>Diff\<close> returns \<open>added = C - S\<close>, \<open>removed = S - C\<close> and
  \<open>updated = S \<inter> C\<close>, whatever the order in which the two maps are visited; the three are
  pairwise disjoint and list no reference twice; and \<open>HasChanges\<close> holds of the diff if
  and only if one of the three is not empty. The candidate is any manifest in memory,
  with its value at the call.
\<close>

theorem Diff_sets:
  assumes "snd (Read sys platformDir w) = Inr cfg"
    and "visits_keys sys (snd (pkgSet (arrays w) current))"
    and "visits_keys sys (snd (pkgSet (arrays_of (Manifest cfg)) (headers_of (Manifest cfg))))"
  shows "case snd (Diff sys platformDir current w) of
           Inl err \<Rightarrow> False
         | Inr d \<Rightarrow>
             set (Added d) = package_refs (load (arrays w) current) - package_refs (Manifest cfg) \<and>
             set (Removed d) = package_refs (Manifest cfg) - package_refs (load (arrays w) current) \<and>
             set (Updated d) = package_refs (Manifest cfg) \<inter> package_refs (load (arrays w) current) \<and>
             set (Added d) \<inter> set (Removed d) = {} \<and>
             set (Added d) \<inter> set (Updated d) = {} \<and>
             set (Removed d) \<inter> set (Updated d) = {} \<and>
             distinct (Added d) \<and> distinct (Removed d) \<and> distinct (Updated d) \<and>
             (HasChanges d \<longleftrightarrow> set (Added d) \<union> set (Removed d) \<union> set (Updated d) \<noteq> {})"
proof -
  let ?S = "snd (pkgSet (arrays_of (Manifest cfg)) (headers_of (Manifest cfg)))"
  let ?C = "snd (pkgSet (arrays w) current)"
  let ?rc = "package_refs (load (arrays w) current)"
  define d where "d = \<lparr>Updated = filter (\<lambda>k. ?S k \<noteq> None) (range_keys sys ?C),
                        Added = filter (\<lambda>k. ?S k = None) (range_keys sys ?C),
                        Removed = filter (\<lambda>k. ?C k = None) (range_keys sys ?S)\<rparr>"
  have res: "snd (Diff sys platformDir current w) = Inr d"
    using assms(1) by (simp add: Diff_Inr d_def)
  have kc: "set (range_keys sys ?C) = ?rc" "distinct (range_keys sys ?C)"
    using assms(2) by (simp_all add: visits_keys_def dom_pkgSet)
  have ks: "set (range_keys sys ?S) = package_refs (Manifest cfg)" "distinct (range_keys sys ?S)"
    using assms(3) by (simp_all add: visits_keys_def dom_pkgSet_value)
  have inS: "\<And>k. ?S k = None \<longleftrightarrow> k \<notin> package_refs (Manifest cfg)"
    by (simp add: dom_pkgSet_value [symmetric] domIff)
  have inC: "\<And>k. ?C k = None \<longleftrightarrow> k \<notin> ?rc"
    by (simp add: dom_pkgSet [symmetric] domIff)
  have a: "set (Added d) = ?rc - package_refs (Manifest cfg)"
    by (auto simp: d_def kc inS)
  have r: "set (Removed d) = package_refs (Manifest cfg) - ?rc"
    by (auto simp: d_def ks inC)
  have u: "set (Updated d) = package_refs (Manifest cfg) \<inter> ?rc"
    by (auto simp: d_def kc inS)
  have dist: "distinct (Added d)" "distinct (Removed d)" "distinct (Updated d)"
    by (simp_all add: d_def kc ks)
  have disj: "set (Added d) \<inter> set (Removed d) = {}" "set (Added d) \<inter> set (Updated d) = {}"
    "set (Removed d) \<inter> set (Updated d) = {}"
    unfolding a r u by blast+
  show ?thesis
    unfolding res using a r u dist disj HasChanges_sets [of d] by simp
qed

lemma ex_pkgSet_AC:
  "snd (pkgSet (arrays_of m_AC) (headers_of m_AC)) = [''A'' \<mapsto> True, ''C'' \<mapsto> True]"
  by (simp add: pkgSet_def go_append_def elems_def arrays_of_def headers_of_def m_AC_def Let_def)

lemma ex_pkgSet_AB:
  "snd (pkgSet (arrays_of m_AB) (headers_of m_AB)) = [''A'' \<mapsto> True, ''B'' \<mapsto> True]"
  by (simp add: pkgSet_def go_append_def elems_def arrays_of_def headers_of_def m_AB_def Let_def)

lemma ex_arrays_AC: "fst (pkgSet (arrays_of m_AC) (headers_of m_AC)) = arrays_of m_AC"
  by (simp add: pkgSet_def go_append_def elems_def arrays_of_def headers_of_def m_AC_def Let_def)

lemma ex_Read_AB: "snd (Read ex_sys ''/p'' w_AB) = Inr cfg_AB"
  by (simp add: fs_defs ex_defs Let_def)

text \<open>The scenario of the specification satisfies the hypotheses of C1.\<close>

theorem Diff_sets_witness:
  "snd (Read ex_sys ''/p'' w_AB) = Inr cfg_AB \<and>
   visits_keys ex_sys (snd (pkgSet (arrays w_AB) (headers_of m_AC))) \<and>
   visits_keys ex_sys (snd (pkgSet (arrays_of (Manifest cfg_AB)) (headers_of (Manifest cfg_AB)))) \<and>
   (case snd (Diff ex_sys ''/p'' (headers_of m_AC) w_AB) of
      Inl err \<Rightarrow> False
    | Inr d \<Rightarrow>
        set (Added d) = package_refs (load (arrays w_AB) (headers_of m_AC)) - package_refs (Manifest cfg_AB) \<and>
        set (Removed d) = package_refs (Manifest cfg_AB) - package_refs (load (arrays w_AB) (headers_of m_AC)) \<and>
        set (Updated d) = package_refs (Manifest cfg_AB) \<inter> package_refs (load (arrays w_AB) (headers_of m_AC)) \<and>
        set (Added d) \<inter> set (Removed d) = {} \<and>
        set (Added d) \<inter> set (Updated d) = {} \<and>
        set (Removed d) \<inter> set (Updated d) = {} \<and>
        distinct (Added d) \<and> distinct (Removed d) \<and> distinct (Updated d) \<and>
        (HasChanges d \<longleftrightarrow> set (Added d) \<union> set (Removed d) \<union> set (Updated d) \<noteq> {}))"
proof -
  have a: "arrays w_AB = arrays_of m_AC" "Manifest cfg_AB = m_AB"
    by (simp_all add: w_AB_def ex_world_def cfg_AB_def)
  have h1: "snd (Read ex_sys ''/p'' w_AB) = Inr cfg_AB"
    by (rule ex_Read_AB)
  have h2: "visits_keys ex_sys (snd (pkgSet (arrays w_AB) (headers_of m_AC)))"
    unfolding a ex_pkgSet_AC by (auto simp add: visits_keys_def ex_sys_def)
  have h3: "visits_keys ex_sys
              (snd (pkgSet (arrays_of (Manifest cfg_AB)) (headers_of (Manifest cfg_AB))))"
    unfolding a ex_pkgSet_AB by (auto simp add: visits_keys_def ex_sys_def)
  show ?thesis
    using h1 h2 h3 Diff_sets [OF h1 h2 h3] by blast
qed

lemma Diff_scenario:
  "snd (Diff ex_sys ''/p'' (headers_of m_AC) w_AB) =
     Inr \<lparr>Updated = [''A''], Added = [''C''], Removed = [''B'']\<rparr>"
proof -
  have a: "arrays w_AB = arrays_of m_AC" "Manifest cfg_AB = m_AB"
    by (simp_all add: w_AB_def ex_world_def cfg_AB_def)
  show ?thesis
    unfolding Diff_Inr [OF ex_Read_AB] a ex_pkgSet_AC ex_pkgSet_AB
    by (auto simp add: ex_sys_def)
qed

section \<open>The packages of a selection\<close>

lemma index_fold_ids:
  "index (fold (\<lambda>id s. s(id \<mapsto> True)) ids s0) k = (k \<in> set ids \<or> index s0 k)"
  by (induction ids arbitrary: s0) (auto simp: index_def)

lemma fold_select:
  "fold (\<lambda>c out. if P c then out @ [Pkg c] else out) cs acc = acc @ map Pkg (filter P cs)"
  by (induction cs arbitrary: acc) simp_all

lemma index_empty: "index Map.empty k = False"
  by (simp add: index_def)

lemma selectedPkgs_eq:
  "selectedPkgs components ids = map Pkg (filter (\<lambda>c. ID c \<in> set ids) components)"
  by (simp add: selectedPkgs_def Let_def fold_select index_fold_ids index_empty)

lemma set_selectedPkgs: "set (selectedPkgs components ids) = chosen_refs components ids"
  by (auto simp: selectedPkgs_eq chosen_refs_def)

lemma selectedPkgs_cong:
  "set ids' \<inter> ID ` set components = set ids \<inter> ID ` set components \<Longrightarrow>
   selectedPkgs components ids' = selectedPkgs components ids"
  unfolding selectedPkgs_eq
  by (rule arg_cong [where f = "map Pkg"], rule filter_cong) auto

lemma Install_calls:
  "pm_calls (new_events w (fst (Install sys clk ins sel m w))) =
     [CallInstall (PlatformDir sel)
        (CorePackageNames m @ selectedPkgs (Services m) (sel_Services sel) @
         selectedPkgs (Plugins m) (sel_Plugins sel))]"
  by (simp add: Install_def Let_def case_prod_beta new_events_def Write_trace
      split: option.splits)

lemma Install_selection_cong:
  assumes "PlatformDir sel' = PlatformDir sel" "ProjectCWD sel' = ProjectCWD sel"
    and "selectedPkgs (Services m) (sel_Services sel') = selectedPkgs (Services m) (sel_Services sel)"
    and "selectedPkgs (Plugins m) (sel_Plugins sel') = selectedPkgs (Plugins m) (sel_Plugins sel)"
  shows "Install sys clk ins sel' m w = Install sys clk ins sel m w"
  using assms by (simp add: Install_def)

lemma set_Install_pkgs:
  "set (CorePackageNames m @ selectedPkgs (Services m) (sel_Services sel) @
        selectedPkgs (Plugins m) (sel_Plugins sel)) =
   Name ` set (Core m) \<union> chosen_refs (Services m) (sel_Services sel) \<union>
   chosen_refs (Plugins m) (sel_Plugins sel)"
  by (auto simp: CorePackageNames_def set_selectedPkgs)

text \<open>
  C2. \<open>Install\<close> calls the package manager once, with \<^verbatim>\<open>Install\<close>, and the set of
  package references it passes is: the names of all core packages, and the package
  reference of every service and plugin whose id is among the chosen ids. A chosen id
  that matches no component changes nothing in the run (in particular it is no error),
  and neither does listing an id again that is already chosen: the run is the same,
  so the component's reference is passed once.
\<close>

theorem Install_package_set:
  "pm_calls (new_events w (fst (Install sys clk ins sel m w))) =
     [CallInstall (PlatformDir sel)
        (CorePackageNames m @ selectedPkgs (Services m) (sel_Services sel) @
         selectedPkgs (Plugins m) (sel_Plugins sel))] \<and>
   set (CorePackageNames m @ selectedPkgs (Services m) (sel_Services sel) @
        selectedPkgs (Plugins m) (sel_Plugins sel)) =
     Name ` set (Core m) \<union> chosen_refs (Services m) (sel_Services sel) \<union>
     chosen_refs (Plugins m) (sel_Plugins sel) \<and>
   (i \<notin> ID ` set (Services m) \<longrightarrow>
      Install sys clk ins (sel\<lparr>sel_Services := xs @ i # ys\<rparr>) m w =
      Install sys clk ins (sel\<lparr>sel_Services := xs @ ys\<rparr>) m w) \<and>
   (i \<notin> ID ` set (Plugins m) \<longrightarrow>
      Install sys clk ins (sel\<lparr>sel_Plugins := xs @ i # ys\<rparr>) m w =
      Install sys clk ins (sel\<lparr>sel_Plugins := xs @ ys\<rparr>) m w) \<and>
   (i \<in> set (xs @ ys) \<longrightarrow>
      Install sys clk ins (sel\<lparr>sel_Services := xs @ i # ys\<rparr>) m w =
      Install sys clk ins (sel\<lparr>sel_Services := xs @ ys\<rparr>) m w) \<and>
   (i \<in> set (xs @ ys) \<longrightarrow>
      Install sys clk ins (sel\<lparr>sel_Plugins := xs @ i # ys\<rparr>) m w =
      Install sys clk ins (sel\<lparr>sel_Plugins := xs @ ys\<rparr>) m w)"
proof (intro conjI impI)
  show "pm_calls (new_events w (fst (Install sys clk ins sel m w))) =
     [CallInstall (PlatformDir sel)
        (CorePackageNames m @ selectedPkgs (Services m) (sel_Services sel) @
         selectedPkgs (Plugins m) (sel_Plugins sel))]"
    by (rule Install_calls)
  show "set (CorePackageNames m @ selectedPkgs (Services m) (sel_Services sel) @
        selectedPkgs (Plugins m) (sel_Plugins sel)) =
     Name ` set (Core m) \<union> chosen_refs (Services m) (sel_Services sel) \<union>
     chosen_refs (Plugins m) (sel_Plugins sel)"
    by (rule set_Install_pkgs)
next
  assume "i \<notin> ID ` set (Services m)"
  then have "selectedPkgs (Services m) (xs @ i # ys) = selectedPkgs (Services m) (xs @ ys)"
    by (intro selectedPkgs_cong) auto
  then show "Install sys clk ins (sel\<lparr>sel_Services := xs @ i # ys\<rparr>) m w =
      Install sys clk ins (sel\<lparr>sel_Services := xs @ ys\<rparr>) m w"
    by (intro Install_selection_cong) simp_all
next
  assume "i \<notin> ID ` set (Plugins m)"
  then have "selectedPkgs (Plugins m) (xs @ i # ys) = selectedPkgs (Plugins m) (xs @ ys)"
    by (intro selectedPkgs_cong) auto
  then show "Install sys clk ins (sel\<lparr>sel_Plugins := xs @ i # ys\<rparr>) m w =
      Install sys clk ins (sel\<lparr>sel_Plugins := xs @ ys\<rparr>) m w"
    by (intro Install_selection_cong) simp_all
next
  assume "i \<in> set (xs @ ys)"
  then have "selectedPkgs (Services m) (xs @ i # ys) = selectedPkgs (Services m) (xs @ ys)"
    by (intro selectedPkgs_cong) auto
  then show "Install sys clk ins (sel\<lparr>sel_Services := xs @ i # ys\<rparr>) m w =
      Install sys clk ins (sel\<lparr>sel_Services := xs @ ys\<rparr>) m w"
    by (intro Install_selection_cong) simp_all
next
  assume "i \<in> set (xs @ ys)"
  then have "selectedPkgs (Plugins m) (xs @ i # ys) = selectedPkgs (Plugins m) (xs @ ys)"
    by (intro selectedPkgs_cong) auto
  then show "Install sys clk ins (sel\<lparr>sel_Plugins := xs @ i # ys\<rparr>) m w =
      Install sys clk ins (sel\<lparr>sel_Plugins := xs @ ys\<rparr>) m w"
    by (intro Install_selection_cong) simp_all
qed

text \<open>An unknown id and a repeated id, on the manifest of the scenario.\<close>

theorem Install_package_set_witness:
  "''nope'' \<notin> ID ` set (Services m_AB) \<and>
   Install ex_sys (\<lambda>i. 100) (ex_ins [] None) (sel_AB [''s1'', ''nope'']) m_AB w_fresh =
   Install ex_sys (\<lambda>i. 100) (ex_ins [] None) (sel_AB [''s1'']) m_AB w_fresh \<and>
   ''s1'' \<in> set ([''s1''] @ []) \<and>
   Install ex_sys (\<lambda>i. 100) (ex_ins [] None) (sel_AB [''s1'', ''s1'']) m_AB w_fresh =
   Install ex_sys (\<lambda>i. 100) (ex_ins [] None) (sel_AB [''s1'']) m_AB w_fresh \<and>
   pm_calls (new_events w_fresh
      (fst (Install ex_sys (\<lambda>i. 100) (ex_ins [] None) (sel_AB [''s1'', ''s1'', ''nope'']) m_AB w_fresh))) =
     [CallInstall ''/p'' [''A'', ''B'']]"
proof -
  have unknown: "''nope'' \<notin> ID ` set (Services m_AB)"
    by (simp add: m_AB_def)
  have listed: "''s1'' \<in> set ([''s1''] @ [])"
    by simp
  have pkgs: "CorePackageNames m_AB @ selectedPkgs (Services m_AB) [''s1'', ''s1'', ''nope''] @
              selectedPkgs (Plugins m_AB) [] = [''A'', ''B'']"
    by (simp add: CorePackageNames_def selectedPkgs_eq m_AB_def)
  note thm1 = Install_package_set [where sys = ex_sys and clk = "\<lambda>i. 100" and ins = "ex_ins [] None"
      and sel = "sel_AB []" and m = m_AB and w = w_fresh and i = "''nope''" and xs = "[''s1'']"
      and ys = "[]"]
  note thm2 = Install_package_set [where sys = ex_sys and clk = "\<lambda>i. 100" and ins = "ex_ins [] None"
      and sel = "sel_AB []" and m = m_AB and w = w_fresh and i = "''s1''" and xs = "[''s1'']"
      and ys = "[]"]
  note thm3 = Install_package_set [where sys = ex_sys and clk = "\<lambda>i. 100" and ins = "ex_ins [] None"
      and sel = "sel_AB [''s1'', ''s1'', ''nope'']" and m = m_AB and w = w_fresh]
  have a: "Install ex_sys (\<lambda>i. 100) (ex_ins [] None) (sel_AB [''s1'', ''nope'']) m_AB w_fresh =
           Install ex_sys (\<lambda>i. 100) (ex_ins [] None) (sel_AB [''s1'']) m_AB w_fresh"
    using thm1 unknown by (simp add: sel_AB_def)
  have b: "Install ex_sys (\<lambda>i. 100) (ex_ins [] None) (sel_AB [''s1'', ''s1'']) m_AB w_fresh =
           Install ex_sys (\<lambda>i. 100) (ex_ins [] None) (sel_AB [''s1'']) m_AB w_fresh"
    using thm2 listed by (simp add: sel_AB_def)
  have c: "pm_calls (new_events w_fresh
      (fst (Install ex_sys (\<lambda>i. 100) (ex_ins [] None) (sel_AB [''s1'', ''s1'', ''nope'']) m_AB w_fresh))) =
     [CallInstall ''/p'' [''A'', ''B'']]"
    using thm3 pkgs by (simp add: sel_AB_def)
  show ?thesis
    using unknown listed a b c by blast
qed

lemma Install_calls_selection:
  assumes "PlatformDir sel' = PlatformDir sel"
    and "set (sel_Services sel') = set (sel_Services sel)"
    and "set (sel_Plugins sel') = set (sel_Plugins sel)"
  shows "pm_calls (new_events w (fst (Install sys clk ins sel' m w))) =
         pm_calls (new_events w (fst (Install sys clk ins sel m w)))"
  using assms by (simp add: Install_calls selectedPkgs_eq)

lemma count_list_two:
  assumes "r \<in> set xs" "r \<in> set ys"
  shows "2 \<le> count_list (xs @ ys) r"
proof -
  have "0 < count_list xs r" "0 < count_list ys r"
    using assms count_list_0_iff [of xs r] count_list_0_iff [of ys r] by auto
  then show ?thesis by simp
qed

text \<open>
  C10. The package list \<open>Install\<close> passes to the package manager is the names of the
  core packages in the order of the manifest, then the package references of the chosen
  services in the order of the manifest, then those of the chosen plugins in the order of
  the manifest. It depends on the chosen ids only through the sets of ids, not through
  their order or the number of times each is listed. Nothing removes duplicates between
  the groups: a reference that is a core package and the reference of a chosen service
  or plugin is in the list at least twice.
\<close>

theorem Install_package_order:
  "pm_calls (new_events w (fst (Install sys clk ins sel m w))) =
     [CallInstall (PlatformDir sel)
        (map Name (Core m) @
         map Pkg (filter (\<lambda>c. ID c \<in> set (sel_Services sel)) (Services m)) @
         map Pkg (filter (\<lambda>c. ID c \<in> set (sel_Plugins sel)) (Plugins m)))] \<and>
   (PlatformDir sel' = PlatformDir sel \<and> set (sel_Services sel') = set (sel_Services sel) \<and>
    set (sel_Plugins sel') = set (sel_Plugins sel) \<longrightarrow>
      pm_calls (new_events w (fst (Install sys clk ins sel' m w))) =
      pm_calls (new_events w (fst (Install sys clk ins sel m w)))) \<and>
   (r \<in> Name ` set (Core m) \<and>
    r \<in> chosen_refs (Services m) (sel_Services sel) \<union> chosen_refs (Plugins m) (sel_Plugins sel) \<longrightarrow>
      2 \<le> count_list
             (map Name (Core m) @
              map Pkg (filter (\<lambda>c. ID c \<in> set (sel_Services sel)) (Services m)) @
              map Pkg (filter (\<lambda>c. ID c \<in> set (sel_Plugins sel)) (Plugins m))) r)"
proof (intro conjI impI)
  show "pm_calls (new_events w (fst (Install sys clk ins sel m w))) =
     [CallInstall (PlatformDir sel)
        (map Name (Core m) @
         map Pkg (filter (\<lambda>c. ID c \<in> set (sel_Services sel)) (Services m)) @
         map Pkg (filter (\<lambda>c. ID c \<in> set (sel_Plugins sel)) (Plugins m)))]"
    by (simp add: Install_calls selectedPkgs_eq CorePackageNames_def)
next
  assume "PlatformDir sel' = PlatformDir sel \<and> set (sel_Services sel') = set (sel_Services sel) \<and>
    set (sel_Plugins sel') = set (sel_Plugins sel)"
  then show "pm_calls (new_events w (fst (Install sys clk ins sel' m w))) =
      pm_calls (new_events w (fst (Install sys clk ins sel m w)))"
    by (intro Install_calls_selection) simp_all
next
  assume r: "r \<in> Name ` set (Core m) \<and>
    r \<in> chosen_refs (Services m) (sel_Services sel) \<union> chosen_refs (Plugins m) (sel_Plugins sel)"
  have "r \<in> set (map Name (Core m))"
    using r by simp
  moreover have "r \<in> set (map Pkg (filter (\<lambda>c. ID c \<in> set (sel_Services sel)) (Services m)) @
              map Pkg (filter (\<lambda>c. ID c \<in> set (sel_Plugins sel)) (Plugins m)))"
    using r by (auto simp: chosen_refs_def)
  ultimately show "2 \<le> count_list
             (map Name (Core m) @
              map Pkg (filter (\<lambda>c. ID c \<in> set (sel_Services sel)) (Services m)) @
              map Pkg (filter (\<lambda>c. ID c \<in> set (sel_Plugins sel)) (Plugins m))) r"
    by (rule count_list_two)
qed

text \<open>
  Two selections with the same ids in another order and number, and a manifest whose
  service has the reference of a core package.
\<close>

theorem Install_package_order_witness:
  "PlatformDir (sel_AB [''s1'', ''x'', ''s1'']) = PlatformDir (sel_AB [''x'', ''s1'']) \<and>
   set (sel_Services (sel_AB [''s1'', ''x'', ''s1''])) = set (sel_Services (sel_AB [''x'', ''s1''])) \<and>
   set (sel_Plugins (sel_AB [''s1'', ''x'', ''s1''])) = set (sel_Plugins (sel_AB [''x'', ''s1''])) \<and>
   pm_calls (new_events w_fresh
      (fst (Install ex_sys (\<lambda>i. 100) (ex_ins [] None) (sel_AB [''s1'', ''x'', ''s1'']) m_AA w_fresh))) =
   pm_calls (new_events w_fresh
      (fst (Install ex_sys (\<lambda>i. 100) (ex_ins [] None) (sel_AB [''x'', ''s1'']) m_AA w_fresh))) \<and>
   pm_calls (new_events w_fresh
      (fst (Install ex_sys (\<lambda>i. 100) (ex_ins [] None) (sel_AB [''x'', ''s1'']) m_AA w_fresh))) =
     [CallInstall ''/p'' [''A'', ''A'']] \<and>
   ''A'' \<in> Name ` set (Core m_AA) \<and>
   ''A'' \<in> chosen_refs (Services m_AA) (sel_Services (sel_AB [''x'', ''s1''])) \<union>
           chosen_refs (Plugins m_AA) (sel_Plugins (sel_AB [''x'', ''s1''])) \<and>
   2 \<le> count_list [''A'', ''A''] ''A''"
proof -
  note inst = Install_package_order [where sys = ex_sys and clk = "\<lambda>i. 100"
      and ins = "ex_ins [] None" and sel = "sel_AB [''x'', ''s1'']"
      and sel' = "sel_AB [''s1'', ''x'', ''s1'']" and m = m_AA and w = w_fresh and r = "''A''"]
  have same: "PlatformDir (sel_AB [''s1'', ''x'', ''s1'']) = PlatformDir (sel_AB [''x'', ''s1''])"
    "set (sel_Services (sel_AB [''s1'', ''x'', ''s1''])) = set (sel_Services (sel_AB [''x'', ''s1'']))"
    "set (sel_Plugins (sel_AB [''s1'', ''x'', ''s1''])) = set (sel_Plugins (sel_AB [''x'', ''s1'']))"
    by (auto simp: sel_AB_def)
  have twice: "''A'' \<in> Name ` set (Core m_AA)"
    "''A'' \<in> chosen_refs (Services m_AA) (sel_Services (sel_AB [''x'', ''s1''])) \<union>
            chosen_refs (Plugins m_AA) (sel_Plugins (sel_AB [''x'', ''s1'']))"
    by (force simp add: m_AA_def sel_AB_def chosen_refs_def)+
  have pkgs: "map Name (Core m_AA) @
         map Pkg (filter (\<lambda>c. ID c \<in> set (sel_Services (sel_AB [''x'', ''s1'']))) (Services m_AA)) @
         map Pkg (filter (\<lambda>c. ID c \<in> set (sel_Plugins (sel_AB [''x'', ''s1'']))) (Plugins m_AA)) =
         [''A'', ''A'']"
    by (simp add: m_AA_def sel_AB_def)
  have dir: "PlatformDir (sel_AB [''x'', ''s1'']) = ''/p''"
    by (simp add: sel_AB_def)
  show ?thesis
    using inst same twice unfolding pkgs dir by blast
qed

section \<open>A successful installation\<close>








lemma ex_ConfigPath: "ConfigPath ex_sys ''/p'' = ''/p/.kb/kb.config.json''"
  by (simp add: ConfigPath_def ex_defs)




section \<open>Updates\<close>

lemma fst_pkgSet: "fst (pkgSet a m) = fst (go_append a (Services m) (Plugins m))"
  by (simp add: pkgSet_def Let_def case_prod_beta)

lemma go_append_own:
  assumes "own_capacity a m"
  shows "load (fst (go_append a (Services m) (Plugins m))) m = load a m"
    and "own_capacity (fst (go_append a (Services m) (Plugins m))) m"
proof -
  let ?s = "Services m" and ?t = "Plugins m"
  let ?a' = "fst (go_append a ?s ?t)"
  have inside: "off ?s + len ?s \<le> length (a (arr ?s))"
    using assms by (simp add: own_capacity_def)
  consider (copy) "\<not> len ?s + len ?t \<le> cap ?s"
    | (none) "len ?t = 0"
    | (other) "len ?s + len ?t \<le> cap ?s" "arr ?s \<noteq> arr ?t"
    using assms by (auto simp: own_capacity_def)
  then have "elems ?a' ?s = elems a ?s \<and> elems ?a' ?t = elems a ?t \<and>
             off ?s + len ?s \<le> length (?a' (arr ?s))"
  proof cases
    case copy
    then show ?thesis
      using inside by (simp add: go_append_def Let_def)
  next
    case none
    then have "?a' = a"
      by (simp add: go_append_def Let_def elems_def fun_eq_iff)
    then show ?thesis
      using inside by simp
  next
    case other
    have a': "?a' = a(arr ?s := take (off ?s + len ?s) (a (arr ?s)) @ elems a ?t @
                        drop (off ?s + len ?s + len ?t) (a (arr ?s)))"
      using other(1) by (simp add: go_append_def Let_def)
    have "drop (off ?s) (take (off ?s + len ?s) (a (arr ?s))) = take (len ?s) (drop (off ?s) (a (arr ?s)))"
      by (simp add: drop_take)
    moreover have "length (take (len ?s) (drop (off ?s) (a (arr ?s)))) = len ?s"
      using inside by simp
    ultimately have "elems ?a' ?s = elems a ?s"
      unfolding a' using inside by (simp add: elems_def)
    moreover have "elems ?a' ?t = elems a ?t"
      unfolding a' using other(2) by (simp add: elems_def)
    moreover have "off ?s + len ?s \<le> length (?a' (arr ?s))"
      unfolding a' using inside by simp
    ultimately show ?thesis
      by simp
  qed
  then show "load ?a' m = load a m" and "own_capacity ?a' m"
    using assms by (simp_all add: load_def own_capacity_def)
qed

lemma Diff_simps [simp]:
  "trace (fst (Diff sys platformDir current w)) = trace w @ [EvReadFile (ConfigPath sys platformDir)]"
  "disk (fst (Diff sys platformDir current w)) = disk w"
  "pm_state (fst (Diff sys platformDir current w)) = pm_state w"
  by (simp_all add: Diff_def Let_def case_prod_beta split: sum.splits)

lemma Diff_arrays:
  "snd (Diff sys platformDir current w) = Inr d \<Longrightarrow>
   arrays (fst (Diff sys platformDir current w)) =
     fst (go_append (arrays w) (Services current) (Plugins current))"
  "snd (Diff sys platformDir current w) = Inl err \<Longrightarrow>
   arrays (fst (Diff sys platformDir current w)) = arrays w"
proof -
  have a: "arrays (fst (Read sys platformDir w)) = arrays w"
    by simp
  show "snd (Diff sys platformDir current w) = Inr d \<Longrightarrow>
    arrays (fst (Diff sys platformDir current w)) =
      fst (go_append (arrays w) (Services current) (Plugins current))"
    using a by (cases "Read sys platformDir w")
      (auto simp add: Diff_def Let_def case_prod_beta fst_pkgSet split: sum.splits)
  show "snd (Diff sys platformDir current w) = Inl err \<Longrightarrow>
    arrays (fst (Diff sys platformDir current w)) = arrays w"
    using a by (cases "Read sys platformDir w")
      (auto simp add: Diff_def Let_def case_prod_beta split: sum.splits)
qed

lemma Diff_error:
  "snd (Diff sys platformDir current w) = Inl err \<longleftrightarrow> snd (Read sys platformDir w) = Inl err"
  by (simp add: Diff_def Let_def case_prod_beta split: sum.splits)


lemma Update_stages:
  fixes ins :: "'s Installer" and w :: "'s world" and clk :: "nat \<Rightarrow> int"
  assumes "snd (Diff sys platformDir current w) = Inr d"
  defines "G \<equiv> (if length (Added d) > 0
            then installGroup ins platformDir (Added d)
                   (Printf (''Installing new packages: '' @ strings_Join (Added d) '' '')
                      (fst (Diff sys platformDir current w)))
            else (fst (Diff sys platformDir current w), None))"
  defines "U \<equiv> updateGroup ins platformDir
              (fold (\<lambda>c acc. acc @ [Pkg c])
                 (snd (go_append (arrays (fst G)) (Services current) (Plugins current)))
                 (CorePackageNames current))
              ((fst G)\<lparr>arrays := fst (go_append (arrays (fst G)) (Services current) (Plugins current))\<rparr>)"
  defines "R \<equiv> Read sys platformDir (fst U)"
  shows "Update sys clk ins platformDir current w =
      (case snd G of
         Some err \<Rightarrow> (fst G, Inl (Wrap ''add new packages'' err))
       | None \<Rightarrow>
           (case snd U of
              Some err \<Rightarrow> (fst U, Inl (Wrap ''update packages'' err))
            | None \<Rightarrow>
                (case snd R of
                   Inl err \<Rightarrow> (fst R, Inl err)
                 | Inr cfg \<Rightarrow>
                     (case snd (Write sys platformDir
                                 (cfg\<lparr>Manifest := load (arrays (fst R)) current\<rparr>) (fst R)) of
                        Some err \<Rightarrow>
                          (fst (Write sys platformDir
                                  (cfg\<lparr>Manifest := load (arrays (fst R)) current\<rparr>) (fst R)),
                           Inl err)
                      | None \<Rightarrow>
                          (fst (Write sys platformDir
                                  (cfg\<lparr>Manifest := load (arrays (fst R)) current\<rparr>) (fst R)),
                           Inr \<lparr>upd_Diff = d, upd_Duration = clk 1 - clk 0\<rparr>)))))"
  unfolding G_def U_def R_def using assms(1)
  by (simp only: Update_def Let_def case_prod_beta sum.case)





lemma own_capacity_headers_of: "own_capacity (arrays_of m) (headers_of m)"
  by (simp add: own_capacity_def arrays_of_def headers_of_def)

lemma Write_result:
  "snd (Write sys platformDir cfg w) =
     (case mkdir_fault (disk w) (filepath_Join sys [platformDir, configDir]) of
        Some e \<Rightarrow> Some (Wrap ''create config dir'' (OsError e))
      | None \<Rightarrow>
          (case json_MarshalIndent sys cfg of
             None \<Rightarrow> Some (Wrap ''marshal config'' JsonError)
           | Some data \<Rightarrow>
               (case write_fault (disk w)
                       (filepath_Join sys [filepath_Join sys [platformDir, configDir], configFile]) of
                  None \<Rightarrow> None
                | Some (OpenFails e) \<Rightarrow> Some (Wrap ''write config'' (OsError e))
                | Some (WriteFails n e) \<Rightarrow> Some (Wrap ''write config'' (OsError e)))))"
  by (simp add: Write_eq Let_def split: option.splits write_fault.splits)











section \<open>Updates without a snapshot\<close>

lemma Update_Diff_error:
  assumes "snd (Diff sys platformDir current w) = Inl err"
  shows "Update sys clk ins platformDir current w = (fst (Diff sys platformDir current w), Inl err)"
  using assms by (simp add: Update_def Let_def case_prod_beta)

lemma Read_missing:
  assumes "files (disk w) (ConfigPath sys platformDir) = None"
  shows "snd (Read sys platformDir w) =
           (case read_fault (disk w) (ConfigPath sys platformDir) of
              None \<Rightarrow> Inl (NoConfig (ConfigPath sys platformDir))
            | Some e \<Rightarrow>
                if IsNotExist e then Inl (NoConfig (ConfigPath sys platformDir))
                else Inl (Wrap ''read config'' (OsError e)))"
  using assms by (simp add: Read_result IsNotExist_def split: option.splits)

lemma ex_Read_notdir:
  "snd (Read ex_sys ''/p'' w_notdir) = Inl (Wrap ''read config'' (OsError ErrNotDir))"
  by (simp add: Read_result ex_ConfigPath) (simp add: w_notdir_def ex_world_def ex_disk_def)

text \<open>
  C6 as stated does not hold. In the world \<open>w_notdir\<close> the platform directory has no
  snapshot: \<^verbatim>\<open>/p/.kb\<close> is a regular file. \<open>Diff\<close> and \<open>Update\<close> fail there, but not with
  the error of a missing configuration: \<^verbatim>\<open>os.ReadFile\<close> fails with \<open>ErrNotDir\<close>, of which
  \<^verbatim>\<open>os.IsNotExist\<close> does not hold, and \<^verbatim>\<open>config.Read\<close> returns \<^verbatim>\<open>read config: ...\<close>.
\<close>

theorem Diff_requires_snapshot_counterexample:
  "files (disk w_notdir) (ConfigPath ex_sys ''/p'') = None \<and>
   snd (Diff ex_sys ''/p'' (headers_of m_AC) w_notdir) =
     Inl (Wrap ''read config'' (OsError ErrNotDir)) \<and>
   snd (Update ex_sys (\<lambda>i. 100) (ex_ins [] None) ''/p'' (headers_of m_AC) w_notdir) =
     Inl (Wrap ''read config'' (OsError ErrNotDir)) \<and>
   Wrap ''read config'' (OsError ErrNotDir) \<noteq> NoConfig (ConfigPath ex_sys ''/p'')"
proof -
  have none: "files (disk w_notdir) (ConfigPath ex_sys ''/p'') = None"
    unfolding ex_ConfigPath by (simp add: w_notdir_def ex_world_def ex_disk_def)
  have d: "snd (Diff ex_sys ''/p'' (headers_of m_AC) w_notdir) =
             Inl (Wrap ''read config'' (OsError ErrNotDir))"
    using ex_Read_notdir by (simp add: Diff_error)
  have "snd (Update ex_sys (\<lambda>i. 100) (ex_ins [] None) ''/p'' (headers_of m_AC) w_notdir) =
          Inl (Wrap ''read config'' (OsError ErrNotDir))"
    by (simp add: Update_Diff_error [OF d])
  then show ?thesis
    using none d by simp
qed

text \<open>
  C6, amended. At a platform directory with no snapshot file, \<open>Diff\<close> fails, and so does
  \<open>Update\<close>, with the same error; \<open>Update\<close> calls no package manager and leaves the disk
  and the candidate manifest as they are. The error is that of a missing configuration
  if \<^verbatim>\<open>os.ReadFile\<close> reports that the file does not exist; if \<^verbatim>\<open>os.ReadFile\<close> fails with
  another error, it is that error, wrapped as \<^verbatim>\<open>read config: ...\<close>.
\<close>

theorem Diff_without_snapshot:
  assumes "files (disk w) (ConfigPath sys platformDir) = None"
  shows "(let err = (case read_fault (disk w) (ConfigPath sys platformDir) of
                       None \<Rightarrow> NoConfig (ConfigPath sys platformDir)
                     | Some e \<Rightarrow>
                         if IsNotExist e then NoConfig (ConfigPath sys platformDir)
                         else Wrap ''read config'' (OsError e))
          in snd (Diff sys platformDir current w) = Inl err \<and>
             snd (Update sys clk ins platformDir current w) = Inl err) \<and>
         pm_calls (new_events w (fst (Update sys clk ins platformDir current w))) = [] \<and>
         disk (fst (Update sys clk ins platformDir current w)) = disk w \<and>
         arrays (fst (Update sys clk ins platformDir current w)) = arrays w"
proof -
  define err where "err = (case read_fault (disk w) (ConfigPath sys platformDir) of
                       None \<Rightarrow> NoConfig (ConfigPath sys platformDir)
                     | Some e \<Rightarrow>
                         if IsNotExist e then NoConfig (ConfigPath sys platformDir)
                         else Wrap ''read config'' (OsError e))"
  have r: "snd (Read sys platformDir w) = Inl err"
    unfolding Read_missing [OF assms] err_def by (simp split: option.splits)
  have d: "snd (Diff sys platformDir current w) = Inl err"
    using r by (simp add: Diff_error)
  have u: "Update sys clk ins platformDir current w = (fst (Diff sys platformDir current w), Inl err)"
    using d by (rule Update_Diff_error)
  show ?thesis
    unfolding Let_def err_def [symmetric] using d Diff_arrays(2) [OF d]
    by (simp add: u new_events_def)
qed

text \<open>A disk with no snapshot, where \<^verbatim>\<open>os.ReadFile\<close> reports that the file does not exist.\<close>

theorem Diff_without_snapshot_witness:
  "files (disk w_fresh) (ConfigPath ex_sys ''/p'') = None \<and>
   read_fault (disk w_fresh) (ConfigPath ex_sys ''/p'') = None \<and>
   snd (Diff ex_sys ''/p'' (headers_of m_AC) w_fresh) = Inl (NoConfig ''/p/.kb/kb.config.json'') \<and>
   snd (Update ex_sys (\<lambda>i. 100) (ex_ins [] None) ''/p'' (headers_of m_AC) w_fresh) =
     Inl (NoConfig ''/p/.kb/kb.config.json'') \<and>
   pm_calls (new_events w_fresh
               (fst (Update ex_sys (\<lambda>i. 100) (ex_ins [] None) ''/p'' (headers_of m_AC) w_fresh))) = [] \<and>
   disk (fst (Update ex_sys (\<lambda>i. 100) (ex_ins [] None) ''/p'' (headers_of m_AC) w_fresh)) = disk w_fresh"
proof -
  have h: "files (disk w_fresh) (ConfigPath ex_sys ''/p'') = None"
    by (simp add: ex_defs)
  have nofault: "read_fault (disk w_fresh) (ConfigPath ex_sys ''/p'') = None"
    by (simp add: ex_defs)
  show ?thesis
    using h nofault
      Diff_without_snapshot [OF h, where current = "headers_of m_AC" and clk = "\<lambda>i. 100"
        and ins = "ex_ins [] None"]
    unfolding nofault ex_ConfigPath by (simp add: Let_def)
qed

section \<open>The capability calls of an update\<close>

lemma fold_append_Pkg:
  "fold (\<lambda>c acc. acc @ [Pkg c]) cs acc0 = acc0 @ map Pkg cs"
  by (induction cs arbitrary: acc0) simp_all

text \<open>
  The calls of a run of \<open>Update\<close> that has read the snapshot. The list that \<^verbatim>\<open>Update\<close> gets
  is read from the memory that the \<^verbatim>\<open>append\<close> of \<^verbatim>\<open>pkgSet\<close> has left.
\<close>

lemma Update_calls_Inr:
  fixes ins :: "'s Installer" and w :: "'s world"
  assumes d: "snd (Diff sys platformDir current w) = Inr d"
  shows "pm_calls (new_events w (fst (Update sys clk ins platformDir current w))) =
       (if Added d = [] then [] else [CallInstall platformDir (Added d)]) @
       (if Added d \<noteq> [] \<and>
           snd (snd (pm_Install (ins_PM ins) (pm_state w) platformDir (Added d))) \<noteq> None
        then []
        else [CallUpdate platformDir
                (map Name (Core current) @
                 map Pkg (Services (load (fst (go_append (arrays w) (Services current) (Plugins current)))
                                      current)) @
                 map Pkg (Plugins (load (fst (go_append (arrays w) (Services current) (Plugins current)))
                                     current)))])"
proof -
  define G where "G = (if length (Added d) > 0
            then installGroup ins platformDir (Added d)
                   (Printf (''Installing new packages: '' @ strings_Join (Added d) '' '')
                      (fst (Diff sys platformDir current w)))
            else (fst (Diff sys platformDir current w), None))"
  define U where "U = updateGroup ins platformDir
              (fold (\<lambda>c acc. acc @ [Pkg c])
                 (snd (go_append (arrays (fst G)) (Services current) (Plugins current)))
                 (CorePackageNames current))
              ((fst G)\<lparr>arrays := fst (go_append (arrays (fst G)) (Services current) (Plugins current))\<rparr>)"
  define R where "R = Read sys platformDir (fst U)"
  note stages = Update_stages [OF d, where ins = ins and clk = clk,
      folded G_def, folded U_def, folded R_def]
  let ?a1 = "fst (go_append (arrays w) (Services current) (Plugins current))"
  let ?inst = "if Added d = [] then [] else [CallInstall platformDir (Added d)]"
  let ?upd = "CallUpdate platformDir
                (map Name (Core current) @ map Pkg (Services (load ?a1 current)) @
                 map Pkg (Plugins (load ?a1 current)))"
  define EG where "EG = new_events w (fst G)"
  have tG: "trace (fst G) = trace w @ EG"
    by (simp add: EG_def G_def new_events_def)
  have aG: "arrays (fst G) = ?a1"
    using Diff_arrays(1) [OF d] by (simp add: G_def)
  have cG: "pm_calls EG = ?inst"
    by (simp add: EG_def G_def new_events_def)
  have sG: "snd G = (if Added d = [] then None
                     else snd (snd (pm_Install (ins_PM ins) (pm_state w) platformDir (Added d))))"
    by (simp add: G_def)
  define EU where "EU = new_events (fst G) (fst U)"
  have tU: "trace (fst U) = trace w @ EG @ EU"
    by (simp add: EU_def U_def new_events_def tG)
  have cU: "pm_calls EU = [?upd]"
    unfolding EU_def U_def aG
    by (simp add: new_events_def fold_append_Pkg CorePackageNames_def snd_go_append load_def)
  have nG: "new_events w (fst G) = EG"
    by (simp add: EG_def)
  have nU: "new_events w (fst U) = EG @ EU"
    using tU by (rule new_events_append)
  have nR: "new_events w (fst R) = EG @ EU @ [EvReadFile (ConfigPath sys platformDir)]"
    by (rule new_events_append) (simp add: R_def tU)
  have nW: "pm_calls (new_events w (fst (Write sys platformDir cfg (fst R)))) = ?inst @ [?upd]" for cfg
  proof -
    have "trace (fst R) = trace w @ EG @ EU @ [EvReadFile (ConfigPath sys platformDir)]"
      by (simp add: R_def tU)
    then show ?thesis
      by (simp add: new_events_def Write_trace cG cU split: option.splits)
  qed
  show ?thesis
  proof (cases "snd G")
    case (Some e)
    then show ?thesis
      using cG sG by (simp add: stages nG split: if_splits)
  next
    case None
    then have ok: "\<not> (Added d \<noteq> [] \<and>
           snd (snd (pm_Install (ins_PM ins) (pm_state w) platformDir (Added d))) \<noteq> None)"
      using sG by (auto split: if_splits)
    show ?thesis
      unfolding stages None using ok cG cU nW
      by (auto simp add: nU nR split: option.splits sum.splits)
  qed
qed

lemma Update_calls_Inl:
  assumes "snd (Diff sys platformDir current w) = Inl err"
  shows "pm_calls (new_events w (fst (Update sys clk ins platformDir current w))) = []"
  by (simp add: Update_Diff_error [OF assms] new_events_def)

text \<open>
  For a candidate manifest in whose memory \<^verbatim>\<open>append\<close> overwrites nothing, the list that
  \<^verbatim>\<open>Update\<close> gets is the names of all core packages and the package references of all
  services and plugins of the candidate manifest, whose set is the whole reference set
  of that manifest.
\<close>

lemma Update_calls_own_capacity:
  fixes ins :: "'s Installer" and w :: "'s world"
  assumes "snd (Diff sys platformDir current w) = Inr d"
    and "own_capacity (arrays w) current"
  shows "pm_calls (new_events w (fst (Update sys clk ins platformDir current w))) =
       (if Added d = [] then [] else [CallInstall platformDir (Added d)]) @
       (if Added d \<noteq> [] \<and>
           snd (snd (pm_Install (ins_PM ins) (pm_state w) platformDir (Added d))) \<noteq> None
        then []
        else [CallUpdate platformDir
                (map Name (Core (load (arrays w) current)) @
                 map Pkg (Services (load (arrays w) current)) @
                 map Pkg (Plugins (load (arrays w) current)))])"
    and "set (map Name (Core (load (arrays w) current)) @
              map Pkg (Services (load (arrays w) current)) @
              map Pkg (Plugins (load (arrays w) current))) =
         package_refs (load (arrays w) current)"
proof -
  have core: "Core (load (arrays w) current) = Core current"
    by (simp add: load_def)
  show "pm_calls (new_events w (fst (Update sys clk ins platformDir current w))) =
       (if Added d = [] then [] else [CallInstall platformDir (Added d)]) @
       (if Added d \<noteq> [] \<and>
           snd (snd (pm_Install (ins_PM ins) (pm_state w) platformDir (Added d))) \<noteq> None
        then []
        else [CallUpdate platformDir
                (map Name (Core (load (arrays w) current)) @
                 map Pkg (Services (load (arrays w) current)) @
                 map Pkg (Plugins (load (arrays w) current)))])"
    unfolding Update_calls_Inr [OF assms(1)] go_append_own(1) [OF assms(2)] core by (rule refl)
  show "set (map Name (Core (load (arrays w) current)) @
              map Pkg (Services (load (arrays w) current)) @
              map Pkg (Plugins (load (arrays w) current))) =
         package_refs (load (arrays w) current)"
    by (auto simp: package_refs_def)
qed

lemma ex_Update_calls_AC:
  "pm_calls (new_events w_AB
      (fst (Update ex_sys (\<lambda>i. 100) (ex_ins [] None) ''/p'' (headers_of m_AC) w_AB))) =
     [CallInstall ''/p'' [''C''], CallUpdate ''/p'' [''A'', ''C'']]"
proof -
  have a: "arrays w_AB = arrays_of m_AC"
    by (simp add: w_AB_def ex_world_def)
  have own: "own_capacity (arrays w_AB) (headers_of m_AC)"
    unfolding a by (rule own_capacity_headers_of)
  have ok: "snd (snd (pm_Install (ins_PM (ex_ins [] None)) (pm_state w_AB) ''/p'' [''C''])) = None"
    by (simp add: ex_ins_def fakePM_def)
  show ?thesis
    unfolding Update_calls_own_capacity(1) [OF Diff_scenario own] a load_headers_of
    using ok by (simp add: m_AC_def)
qed







section \<open>Failing capability calls\<close>

lemma drained_no_call [simp]:
  "EvInstall dir pkgs err \<notin> set (drained ins sent)"
  "EvUpdate dir pkgs err \<notin> set (drained ins sent)"
  by (induction sent) simp_all

lemma Install_failure:
  assumes "EvInstall dir pkgs (Some e) \<in> set (new_events w (fst (Install sys clk ins sel m w)))"
  shows "snd (Install sys clk ins sel m w) = Inl (Wrap ''install'' e) \<and>
         disk (fst (Install sys clk ins sel m w)) = disk w \<and>
         fs_writes (new_events w (fst (Install sys clk ins sel m w))) = []"
  using assms
  by (auto simp add: Install_def Let_def case_prod_beta new_events_def Write_trace
      split: option.splits if_splits)

lemma Update_failure:
  fixes ins :: "'s Installer" and w :: "'s world"
  shows "(EvInstall dir pkgs (Some e) \<in> set (new_events w (fst (Update sys clk ins platformDir current w))) \<longrightarrow>
            snd (Update sys clk ins platformDir current w) = Inl (Wrap ''add new packages'' e) \<and>
            disk (fst (Update sys clk ins platformDir current w)) = disk w \<and>
            fs_writes (new_events w (fst (Update sys clk ins platformDir current w))) = []) \<and>
         (EvUpdate dir pkgs (Some e) \<in> set (new_events w (fst (Update sys clk ins platformDir current w))) \<longrightarrow>
            snd (Update sys clk ins platformDir current w) = Inl (Wrap ''update packages'' e) \<and>
            disk (fst (Update sys clk ins platformDir current w)) = disk w \<and>
            fs_writes (new_events w (fst (Update sys clk ins platformDir current w))) = [])"
proof (cases "snd (Diff sys platformDir current w)")
  case (Inl err)
  show ?thesis
    by (simp add: Update_Diff_error [OF Inl] new_events_def)
next
  case (Inr d)
  define G where "G = (if length (Added d) > 0
            then installGroup ins platformDir (Added d)
                   (Printf (''Installing new packages: '' @ strings_Join (Added d) '' '')
                      (fst (Diff sys platformDir current w)))
            else (fst (Diff sys platformDir current w), None))"
  define U where "U = updateGroup ins platformDir
              (fold (\<lambda>c acc. acc @ [Pkg c])
                 (snd (go_append (arrays (fst G)) (Services current) (Plugins current)))
                 (CorePackageNames current))
              ((fst G)\<lparr>arrays := fst (go_append (arrays (fst G)) (Services current) (Plugins current))\<rparr>)"
  define R where "R = Read sys platformDir (fst U)"
  note stages = Update_stages [OF Inr, where ins = ins and clk = clk,
      folded G_def, folded U_def, folded R_def]
  define EG where "EG = new_events w (fst G)"
  define EU where "EU = new_events (fst G) (fst U)"
  have tG: "trace (fst G) = trace w @ EG"
    by (simp add: EG_def G_def new_events_def)
  have tU: "trace (fst U) = trace w @ EG @ EU"
    by (simp add: EU_def U_def new_events_def tG)
  have tR: "trace (fst R) = trace w @ EG @ EU @ [EvReadFile (ConfigPath sys platformDir)]"
    by (simp add: R_def tU)
  have dG: "disk (fst G) = disk w"
    by (simp add: G_def)
  have dU: "disk (fst U) = disk w"
    by (simp add: U_def dG)
  have iG: "EvInstall dir pkgs (Some e) \<in> set EG \<Longrightarrow> snd G = Some e"
    by (simp add: EG_def G_def new_events_def split: if_splits)
  have uG: "EvUpdate dir pkgs (Some e) \<notin> set EG"
    by (simp add: EG_def G_def new_events_def)
  have wG: "fs_writes EG = []"
    by (simp add: EG_def G_def new_events_def)
  have iU: "EvInstall dir pkgs (Some e) \<notin> set EU"
    by (simp add: EU_def U_def new_events_def)
  have uU: "EvUpdate dir pkgs (Some e) \<in> set EU \<Longrightarrow> snd U = Some e"
    by (simp add: EU_def U_def new_events_def)
  have wU: "fs_writes EU = []"
    by (simp add: EU_def U_def new_events_def)
  have nG: "new_events w (fst G) = EG"
    by (simp add: EG_def)
  have nU: "new_events w (fst U) = EG @ EU"
    using tU by (rule new_events_append)
  have nR: "new_events w (fst R) = EG @ EU @ [EvReadFile (ConfigPath sys platformDir)]"
    using tR by (rule new_events_append)
  show ?thesis
  proof (cases "snd G")
    case (Some e')
    then show ?thesis
      using iG uG wG dG by (auto simp add: stages nG)
  next
    case None
    note g = this
    show ?thesis
    proof (cases "snd U")
      case (Some e'')
      then show ?thesis
        using iG uG wG iU uU wU dU g by (auto simp add: stages nU)
    next
      case None
      have no_install: "EvInstall dir pkgs (Some e) \<notin> set EG \<union> set EU"
        using iG iU g by auto
      have no_update: "EvUpdate dir pkgs (Some e) \<notin> set EG \<union> set EU"
        using uG uU None by auto
      have nW: "EvInstall dir pkgs (Some e) \<notin> set (new_events w (fst (Write sys platformDir cfg (fst R))))"
        "EvUpdate dir pkgs (Some e) \<notin> set (new_events w (fst (Write sys platformDir cfg (fst R))))" for cfg
        using no_install no_update
        by (simp_all add: new_events_def Write_trace tR split: option.splits)
      have "EvInstall dir pkgs (Some e) \<notin> set (new_events w (fst (Update sys clk ins platformDir current w)))"
        "EvUpdate dir pkgs (Some e) \<notin> set (new_events w (fst (Update sys clk ins platformDir current w)))"
        using no_install no_update nW unfolding stages g None
        by (simp_all add: nR split: sum.splits option.splits)
      then show ?thesis
        by simp
    qed
  qed
qed

text \<open>
  C5. If a call of the package manager returns an error during \<open>Install\<close> or during
  \<open>Update\<close>, the operation returns that error wrapped with the name of the stage
  (\<open>install\<close>; \<open>add new packages\<close>; \<open>update packages\<close>), the disk is as it was before the
  operation, so the snapshot is neither written nor changed, and the run has attempted
  no write at all: neither the configuration write nor the creation of the project
  directory in \<open>Install\<close>, nor the rewrite of the snapshot in \<open>Update\<close>.
\<close>

theorem capability_failure_aborts:
  "(EvInstall dir pkgs (Some e) \<in> set (new_events w (fst (Install sys clk ins sel m w))) \<longrightarrow>
      snd (Install sys clk ins sel m w) = Inl (Wrap ''install'' e) \<and>
      disk (fst (Install sys clk ins sel m w)) = disk w \<and>
      fs_writes (new_events w (fst (Install sys clk ins sel m w))) = []) \<and>
   (EvInstall dir pkgs (Some e) \<in> set (new_events w (fst (Update sys clk ins platformDir current w))) \<longrightarrow>
      snd (Update sys clk ins platformDir current w) = Inl (Wrap ''add new packages'' e) \<and>
      disk (fst (Update sys clk ins platformDir current w)) = disk w \<and>
      fs_writes (new_events w (fst (Update sys clk ins platformDir current w))) = []) \<and>
   (EvUpdate dir pkgs (Some e) \<in> set (new_events w (fst (Update sys clk ins platformDir current w))) \<longrightarrow>
      snd (Update sys clk ins platformDir current w) = Inl (Wrap ''update packages'' e) \<and>
      disk (fst (Update sys clk ins platformDir current w)) = disk w \<and>
      fs_writes (new_events w (fst (Update sys clk ins platformDir current w))) = [])"
  using Install_failure [of dir pkgs e w sys clk ins sel m]
    Update_failure [of dir pkgs e w sys clk ins platformDir current]
  by blast

lemma ex_Install_fails:
  "EvInstall ''/p'' [''A'', ''B''] (Some (PmError ''boom''))
     \<in> set (new_events w_AB
              (fst (Install ex_sys (\<lambda>i. 100) (ex_ins ''A'' (Some (PmError ''boom'')))
                      (sel_AB [''s1'']) m_AB w_AB)))"
  by (simp add: Install_def Let_def case_prod_beta new_events_def CorePackageNames_def
      selectedPkgs_eq ex_defs)

lemma ex_Update_install_fails:
  "EvInstall ''/p'' [''C''] (Some (PmError ''boom''))
     \<in> set (new_events w_AB
              (fst (Update ex_sys (\<lambda>i. 100) (ex_ins ''C'' (Some (PmError ''boom''))) ''/p'' (headers_of m_AC) w_AB)))"
  unfolding Update_stages [OF Diff_scenario]
  by (simp add: new_events_def ex_ins_def fakePM_def)

lemma ex_Update_update_fails:
  "EvUpdate ''/p'' [''A'', ''C''] (Some (PmError ''offline''))
     \<in> set (new_events w_AB
              (fst (Update ex_sys (\<lambda>i. 100) \<lparr>ins_PM = offlinePM, OnStep = False, OnLine = True\<rparr>
                      ''/p'' (headers_of m_AC) w_AB)))"
  unfolding Update_stages [OF Diff_scenario]
  by (simp add: new_events_def offlinePM_def fold_append_Pkg CorePackageNames_def snd_go_append
      Diff_arrays(1) [OF Diff_scenario])
     (simp add: w_AB_def ex_world_def elems_def go_append_def arrays_of_def headers_of_def m_AC_def)

text \<open>
  Three failing runs on the installed platform of the scenario: the test double fails
  on a package during \<open>Install\<close> and during the installation of the added reference of
  \<open>Update\<close>, and the offline package manager fails the update.
\<close>

theorem capability_failure_aborts_witness:
  "EvInstall ''/p'' [''A'', ''B''] (Some (PmError ''boom''))
     \<in> set (new_events w_AB
              (fst (Install ex_sys (\<lambda>i. 100) (ex_ins ''A'' (Some (PmError ''boom'')))
                      (sel_AB [''s1'']) m_AB w_AB))) \<and>
   snd (Install ex_sys (\<lambda>i. 100) (ex_ins ''A'' (Some (PmError ''boom''))) (sel_AB [''s1'']) m_AB w_AB) =
     Inl (Wrap ''install'' (PmError ''boom'')) \<and>
   disk (fst (Install ex_sys (\<lambda>i. 100) (ex_ins ''A'' (Some (PmError ''boom''))) (sel_AB [''s1'']) m_AB w_AB)) =
     disk w_AB \<and>
   EvInstall ''/p'' [''C''] (Some (PmError ''boom''))
     \<in> set (new_events w_AB
              (fst (Update ex_sys (\<lambda>i. 100) (ex_ins ''C'' (Some (PmError ''boom''))) ''/p'' (headers_of m_AC) w_AB))) \<and>
   snd (Update ex_sys (\<lambda>i. 100) (ex_ins ''C'' (Some (PmError ''boom''))) ''/p'' (headers_of m_AC) w_AB) =
     Inl (Wrap ''add new packages'' (PmError ''boom'')) \<and>
   disk (fst (Update ex_sys (\<lambda>i. 100) (ex_ins ''C'' (Some (PmError ''boom''))) ''/p'' (headers_of m_AC) w_AB)) =
     disk w_AB \<and>
   EvUpdate ''/p'' [''A'', ''C''] (Some (PmError ''offline''))
     \<in> set (new_events w_AB
              (fst (Update ex_sys (\<lambda>i. 100) \<lparr>ins_PM = offlinePM, OnStep = False, OnLine = True\<rparr>
                      ''/p'' (headers_of m_AC) w_AB))) \<and>
   snd (Update ex_sys (\<lambda>i. 100) \<lparr>ins_PM = offlinePM, OnStep = False, OnLine = True\<rparr> ''/p'' (headers_of m_AC) w_AB) =
     Inl (Wrap ''update packages'' (PmError ''offline'')) \<and>
   disk (fst (Update ex_sys (\<lambda>i. 100) \<lparr>ins_PM = offlinePM, OnStep = False, OnLine = True\<rparr> ''/p'' (headers_of m_AC) w_AB)) =
     disk w_AB"
  using ex_Install_fails ex_Update_install_fails ex_Update_update_fails
    capability_failure_aborts [where dir = "''/p''" and pkgs = "[''A'', ''B'']" and e = "PmError ''boom''"
      and w = w_AB and sys = ex_sys and clk = "\<lambda>i. 100" and ins = "ex_ins ''A'' (Some (PmError ''boom''))"
      and sel = "sel_AB [''s1'']" and m = m_AB]
    capability_failure_aborts [where dir = "''/p''" and pkgs = "[''C'']" and e = "PmError ''boom''"
      and w = w_AB and sys = ex_sys and clk = "\<lambda>i. 100" and ins = "ex_ins ''C'' (Some (PmError ''boom''))"
      and platformDir = "''/p''" and current = "headers_of m_AC"]
    capability_failure_aborts [where dir = "''/p''" and pkgs = "[''A'', ''C'']" and e = "PmError ''offline''"
      and w = w_AB and sys = ex_sys and clk = "\<lambda>i. 100"
      and ins = "\<lparr>ins_PM = offlinePM, OnStep = False, OnLine = True\<rparr>"
      and platformDir = "''/p''" and current = "headers_of m_AC"]
  by blast

section \<open>Writes of the snapshot\<close>

lemma fs_writes_Write:
  "fs_writes (new_events w (fst (Write sys platformDir cfg w))) =
     EvMkdirAll (filepath_Join sys [platformDir, configDir]) #
       (case mkdir_fault (disk w) (filepath_Join sys [platformDir, configDir]) of
          Some e \<Rightarrow> []
        | None \<Rightarrow>
            (case json_MarshalIndent sys cfg of
               None \<Rightarrow> []
             | Some data \<Rightarrow>
                 [EvWriteFile (filepath_Join sys [filepath_Join sys [platformDir, configDir], configFile])
                    data]))"
  by (simp add: new_events_def Write_trace split: option.splits)

lemma Write_failed_files:
  assumes "snd (Write sys platformDir cfg w) \<noteq> None"
    and "no_short_write (disk w)
           (filepath_Join sys [filepath_Join sys [platformDir, configDir], configFile])"
  shows "files (disk (fst (Write sys platformDir cfg w))) = files (disk w)"
  using assms
  by (auto simp add: Write_eq Let_def no_short_write_def split: option.splits write_fault.splits)

text \<open>
  C8, as stated, fails. \<^verbatim>\<open>config.Write\<close> hands the serialised record to \<^verbatim>\<open>os.WriteFile\<close>,
  which truncates the file and then writes; there is no temporary file and no rename.
  On a disk that fills up two bytes into the file, \<open>Write\<close> returns the error
  \<open>write config\<close> and leaves the first two bytes of the serialisation as the snapshot:
  not the complete serialisation of a record passed to \<open>Write\<close>.
\<close>

theorem Write_partial_snapshot_counterexample:
  "snapshot_complete ex_sys ''/p'' [] w_full \<and>
   json_MarshalIndent ex_sys cfg_AB = Some ''{AB}'' \<and>
   snd (Write ex_sys ''/p'' cfg_AB w_full) = Some (Wrap ''write config'' (OsError ErrNoSpace)) \<and>
   files (disk (fst (Write ex_sys ''/p'' cfg_AB w_full))) (ConfigPath ex_sys ''/p'') = Some ''{A'' \<and>
   \<not> snapshot_complete ex_sys ''/p'' [cfg_AB] (fst (Write ex_sys ''/p'' cfg_AB w_full))"
proof -
  have before: "snapshot_complete ex_sys ''/p'' [] w_full"
    by (simp add: snapshot_complete_def ConfigPath_def ex_defs)
  have data: "json_MarshalIndent ex_sys cfg_AB = Some ''{AB}''"
    by (simp add: ex_sys_def)
  have err: "snd (Write ex_sys ''/p'' cfg_AB w_full) = Some (Wrap ''write config'' (OsError ErrNoSpace))"
    unfolding Write_result data by (simp add: ex_defs)
  have part: "files (disk (fst (Write ex_sys ''/p'' cfg_AB w_full))) (ConfigPath ex_sys ''/p'') = Some ''{A''"
    unfolding Write_eq Let_def data by (simp add: ConfigPath_def ex_defs)
  have "\<not> snapshot_complete ex_sys ''/p'' [cfg_AB] (fst (Write ex_sys ''/p'' cfg_AB w_full))"
    unfolding snapshot_complete_def part by (simp add: data)
  then show ?thesis
    using before data err part by blast
qed

text \<open>
  C8, amended. Every \<open>Write\<close> serialises the complete record and passes it to one call
  of \<^verbatim>\<open>os.WriteFile\<close>, after the directory has been created; nothing is written field
  by field or merged with the previous content. If \<open>Write\<close> succeeds, the snapshot file
  holds exactly that serialisation and no other file has changed. As long as
  \<^verbatim>\<open>os.WriteFile\<close> does not fail after it has opened the file, a failed \<open>Write\<close> leaves
  the files as they were, and so the snapshot on disk stays the complete serialisation
  of a record passed to \<open>Write\<close>.
\<close>

theorem Write_whole_record:
  assumes "join_nests sys platformDir"
    and "snapshot_complete sys platformDir written w"
    and "no_short_write (disk w) (ConfigPath sys platformDir)"
  shows "fs_writes (new_events w (fst (Write sys platformDir cfg w))) =
           EvMkdirAll (filepath_Join sys [platformDir, configDir]) #
             (case mkdir_fault (disk w) (filepath_Join sys [platformDir, configDir]) of
                Some e \<Rightarrow> []
              | None \<Rightarrow>
                  (case json_MarshalIndent sys cfg of
                     None \<Rightarrow> []
                   | Some data \<Rightarrow> [EvWriteFile (ConfigPath sys platformDir) data])) \<and>
         (case snd (Write sys platformDir cfg w) of
            None \<Rightarrow>
              json_MarshalIndent sys cfg \<noteq> None \<and>
              files (disk (fst (Write sys platformDir cfg w))) =
                (files (disk w))(ConfigPath sys platformDir := json_MarshalIndent sys cfg)
          | Some err \<Rightarrow> files (disk (fst (Write sys platformDir cfg w))) = files (disk w)) \<and>
         snapshot_complete sys platformDir (cfg # written) (fst (Write sys platformDir cfg w))"
proof -
  have path: "filepath_Join sys [filepath_Join sys [platformDir, configDir], configFile] =
              ConfigPath sys platformDir"
    using assms(1) by (simp add: join_nests_def ConfigPath_def)
  have evs: "fs_writes (new_events w (fst (Write sys platformDir cfg w))) =
           EvMkdirAll (filepath_Join sys [platformDir, configDir]) #
             (case mkdir_fault (disk w) (filepath_Join sys [platformDir, configDir]) of
                Some e \<Rightarrow> []
              | None \<Rightarrow>
                  (case json_MarshalIndent sys cfg of
                     None \<Rightarrow> []
                   | Some data \<Rightarrow> [EvWriteFile (ConfigPath sys platformDir) data]))"
    using fs_writes_Write [of w sys platformDir cfg] unfolding path .
  show ?thesis
  proof (cases "snd (Write sys platformDir cfg w)")
    case None
    have ok: "json_MarshalIndent sys cfg \<noteq> None"
      "files (disk (fst (Write sys platformDir cfg w))) =
         (files (disk w))(ConfigPath sys platformDir := json_MarshalIndent sys cfg)"
      using Write_ok_files [OF None] unfolding path by simp_all
    then have "snapshot_complete sys platformDir (cfg # written) (fst (Write sys platformDir cfg w))"
      by (auto simp add: snapshot_complete_def)
    then show ?thesis
      using evs ok None by simp
  next
    case (Some err)
    have same: "files (disk (fst (Write sys platformDir cfg w))) = files (disk w)"
      using Some assms(3) by (intro Write_failed_files) (simp_all add: path)
    have "snapshot_complete sys platformDir (cfg # written) (fst (Write sys platformDir cfg w))"
      using assms(2) by (auto simp add: snapshot_complete_def same split: option.splits)
    then show ?thesis
      using evs same Some by simp
  qed
qed

text \<open>The first write of a snapshot on a disk without faults.\<close>

theorem Write_whole_record_witness:
  "join_nests ex_sys ''/p'' \<and>
   snapshot_complete ex_sys ''/p'' [] w_fresh \<and>
   no_short_write (disk w_fresh) (ConfigPath ex_sys ''/p'') \<and>
   snd (Write ex_sys ''/p'' cfg_AB w_fresh) = None \<and>
   files (disk (fst (Write ex_sys ''/p'' cfg_AB w_fresh))) (ConfigPath ex_sys ''/p'') = Some ''{AB}'' \<and>
   snapshot_complete ex_sys ''/p'' [cfg_AB] (fst (Write ex_sys ''/p'' cfg_AB w_fresh))"
proof -
  have h1: "join_nests ex_sys ''/p''"
    by (simp add: join_nests_def ex_defs)
  have h2: "snapshot_complete ex_sys ''/p'' [] w_fresh"
    by (simp add: snapshot_complete_def ConfigPath_def ex_defs)
  have h3: "no_short_write (disk w_fresh) (ConfigPath ex_sys ''/p'')"
    by (simp add: no_short_write_def ConfigPath_def ex_defs)
  have data: "json_MarshalIndent ex_sys cfg_AB = Some ''{AB}''"
    by (simp add: ex_sys_def)
  have ok: "snd (Write ex_sys ''/p'' cfg_AB w_fresh) = None"
    unfolding Write_result data by (simp add: ex_defs)
  show ?thesis
    using h1 h2 h3 ok Write_whole_record [OF h1 h2 h3, of cfg_AB] unfolding ok data
    by simp
qed

end
